theory Spec2Isabelle
  imports Main
begin

section \<open>The otelfiber middleware (src/otelfiber/fiber.go)\<close>

text \<open>
  The handler returned by \<open>Middleware\<close> is bracket code around \<open>c.Next()\<close>: it talks to
  the OpenTelemetry SDK (one up/down counter, three histograms, one span), to the fiber
  request object and to the Go runtime (slices, \<open>defer\<close>, panics, the clock).  The model
  keeps each of these explicit:
  \<^item> every SDK call is an event appended to a trace, in program order;
  \<^item> the fiber \<open>Ctx\<close> is a record that the downstream handlers may rewrite;
  \<^item> attribute slices live in a store of backing arrays, so that \<open>append\<close> and \<open>copy\<close>
    alias exactly as in Go;
  \<^item> \<open>defer\<close> pushes on a stack that is run, last in first out, on return and on panic;
  \<^item> a call into user code (\<open>c.Next\<close>, the error handler, the span-name formatter)
    either returns or panics.  Calls into the SDK, the semconv helpers, the propagator
    and the attribute extractors return.
\<close>

subsection \<open>Attributes and options of the SDK\<close>

type_synonym go_error = string

datatype Value = INVALID | INT64 int | STRING string

datatype KeyValue = KeyValue (Key: string) (Val: Value)

text \<open>The zero value of \<open>attribute.KeyValue\<close>, which \<open>make\<close> fills a new slice with.\<close>

definition zero_KeyValue :: KeyValue where
  "zero_KeyValue = KeyValue [] INVALID"

definition HTTPRouteKey :: string where
  "HTTPRouteKey = ''http.route''"

definition HTTPResponseContentLengthKey :: string where
  "HTTPResponseContentLengthKey = ''http.response_content_length''"

text \<open>
  \<open>metric.WithAttributes\<close> yields a value that is both an \<open>AddOption\<close> and a
  \<open>RecordOption\<close>; \<open>nil_option\<close> is the nil interface a fresh option slice holds.
\<close>

datatype MeasurementOption = nil_option | WithAttributes "KeyValue list"

datatype SpanKind =
  SpanKindUnspecified | SpanKindInternal | SpanKindServer | SpanKindClient
  | SpanKindProducer | SpanKindConsumer

datatype SpanStartOption = trace_WithAttributes "KeyValue list" | WithSpanKind SpanKind

datatype Code = Unset | Error | Ok

subsection \<open>Contexts, the request object, calls that may panic\<close>

datatype "context" =
  Background
  | WithValue string "context"
  | WithCancel "context"
  | ContextWithSpan string "context"

type_synonym Header = "(string \<times> string list) list"

record Ctx =
  Path :: string
  Route_Path :: string
  Request_Header :: "(string \<times> string) list"
  Request_Body :: string
  Response_StatusCode :: int
  Response_Body :: string
  UserContext :: "context"
  Locals :: "(string \<times> string) list"

datatype 'a call = Returns 'a | Panics string

subsection \<open>Go slices over a store of backing arrays\<close>

text \<open>
  A slice is a window on a backing array.  No slice of the handler is re-sliced, so the
  window always starts at index 0.  The store is the list of all backing arrays; an
  address is a position in it, and allocation appends.
\<close>

record slice =
  array :: nat
  len :: nat
  cap :: nat

type_synonym heap = "KeyValue list list"

definition backing :: "heap \<Rightarrow> nat \<Rightarrow> KeyValue list" where
  "backing h a = (if a < length h then h ! a else [])"

definition elems :: "heap \<Rightarrow> slice \<Rightarrow> KeyValue list" where
  "elems h s = take (len s) (backing h (array s))"

text \<open>A slice returned by a library function: its elements and some spare capacity.\<close>

definition new_slice :: "heap \<Rightarrow> KeyValue list \<times> nat \<Rightarrow> slice \<times> heap" where
  "new_slice h r =
     (case r of (xs, spare) \<Rightarrow>
        (\<lparr>array = length h, len = length xs, cap = length xs + spare\<rparr>,
         h @ [xs @ replicate spare zero_KeyValue]))"

definition make_slice :: "heap \<Rightarrow> nat \<Rightarrow> slice \<times> heap" where
  "make_slice h n =
     (\<lparr>array = length h, len = n, cap = n\<rparr>, h @ [replicate n zero_KeyValue])"

text \<open>\<open>copy(dst, src)\<close> overwrites the first \<open>min(len(dst), len(src))\<close> cells of \<open>dst\<close>.\<close>

definition copy_slice :: "heap \<Rightarrow> slice \<Rightarrow> slice \<Rightarrow> heap" where
  "copy_slice h dst src =
     (let n = min (len dst) (len src)
      in h[array dst := take n (elems h src) @ drop n (backing h (array dst))])"

text \<open>
  \<open>append(s, xs...)\<close> writes in place when the capacity suffices, and otherwise moves
  the elements to a new array.  The new capacity is the runtime's business: \<open>grow\<close>
  proposes one, and at least the needed length is taken.
\<close>

definition append_slice ::
  "(nat \<Rightarrow> nat \<Rightarrow> nat) \<Rightarrow> heap \<Rightarrow> slice \<Rightarrow> KeyValue list \<Rightarrow> slice \<times> heap" where
  "append_slice grow h s xs =
     (let need = len s + length xs
      in if need \<le> cap s
         then (s\<lparr>len := need\<rparr>,
               h[array s := elems h s @ xs @ drop need (backing h (array s))])
         else (let c = max need (grow (cap s) need)
               in (\<lparr>array = length h, len = need, cap = c\<rparr>,
                   h @ [elems h s @ xs @ replicate (c - need) zero_KeyValue])))"

subsection \<open>attributesToMetricOptions and attributesToRecordOptions\<close>

text \<open>The loop \<open>for i, attr := range attrs { options[i] = metric.WithAttributes(attr) }\<close>.\<close>

fun options_loop ::
  "nat \<Rightarrow> KeyValue list \<Rightarrow> MeasurementOption list \<Rightarrow> MeasurementOption list" where
  "options_loop i [] options = options"
| "options_loop i (attr # attrs) options =
     options_loop (Suc i) attrs (options[i := WithAttributes [attr]])"

definition attributesToMetricOptions :: "KeyValue list \<Rightarrow> MeasurementOption list" where
  "attributesToMetricOptions attrs =
     options_loop 0 attrs (replicate (length attrs) nil_option)"

definition attributesToRecordOptions :: "KeyValue list \<Rightarrow> MeasurementOption list" where
  "attributesToRecordOptions attrs =
     options_loop 0 attrs (replicate (length attrs) nil_option)"

subsection \<open>The surroundings of the handler\<close>

text \<open>
  What the handler calls but this file does not define.  \<open>c.Next\<close>, the application's
  error handler and a configured span-name formatter are user code: they get the request
  object, may rewrite it, and return or panic.  The two attribute extractors of this
  package (\<open>httpServerMetricAttributesFromRequest\<close>, \<open>httpServerTraceAttributesFromRequest\<close>)
  and the semconv helpers of the OpenTelemetry library are taken as they come; a helper
  that returns a slice gives its elements and its spare capacity.  The monotonic clock is
  read twice: by \<open>time.Now()\<close> at entry and by \<open>time.Since(start)\<close> in the teardown.
\<close>

record env =
  Next :: "Ctx \<Rightarrow> go_error option call \<times> Ctx"
  ErrorHandler :: "Ctx \<Rightarrow> go_error \<Rightarrow> go_error option call \<times> Ctx"
  httpServerMetricAttributesFromRequest :: "Ctx \<Rightarrow> KeyValue list \<times> nat"
  httpServerTraceAttributesFromRequest :: "Ctx \<Rightarrow> KeyValue list"
  HTTPAttributesFromHTTPStatusCode :: "int \<Rightarrow> KeyValue list \<times> nat"
  SpanStatusFromHTTPStatusCodeAndSpanKind :: "int \<Rightarrow> SpanKind \<Rightarrow> Code \<times> string"
  GetTextMapPropagator :: "context \<Rightarrow> Header \<Rightarrow> context"
  growslice :: "nat \<Rightarrow> nat \<Rightarrow> nat"
  nanotime_Now :: int
  nanotime_Since :: int

record config =
  Propagators :: "(context \<Rightarrow> Header \<Rightarrow> context) option"
  SpanNameFormatter :: "(Ctx \<Rightarrow> string call \<times> Ctx) option"

subsection \<open>Events, state, deferred calls\<close>

datatype float64 = float64_of_int int | float64_div float64 float64

datatype event =
  ActiveRequests_Add "context" int "MeasurementOption list"
  | Duration_Record "context" float64 "MeasurementOption list"
  | RequestSize_Record "context" int "MeasurementOption list"
  | ResponseSize_Record "context" int "MeasurementOption list"
  | tracer_Start "context" string "SpanStartOption list"
  | span_RecordError go_error
  | span_SetAttributes "KeyValue list"
  | span_SetName string
  | span_SetStatus Code string
  | span_End
  | c_Next
  | App_ErrorHandler go_error
  | cancel "context"

record state =
  fiber :: Ctx
  store :: heap
  trace :: "event list"

text \<open>The variables of the closure that are live across \<open>c.Next()\<close>.\<close>

record frame =
  savedCtx :: "context"
  start :: int
  requestMetricsAttrs :: slice
  requestMetric :: "MeasurementOption list"
  responseMetricAttrs :: slice

text \<open>What the deferred function of lines 136--149 captures.\<close>

record teardown_closure =
  vars :: frame
  responseAttrs :: slice
  requestSize :: int
  responseSize :: int

datatype deferred = defer_span_End | defer_teardown teardown_closure

subsection \<open>The clock\<close>

text \<open>
  \<open>time.Since(start)\<close> subtracts two readings of the monotonic clock, in nanoseconds;
  \<open>Duration.Microseconds\<close> is Go's integer division by 1000, which truncates towards
  zero.  The value recorded is the float64 \<open>float64(us)/1000\<close>, the double nearest to
  the quotient.  No arithmetic of doubles is modelled: a \<open>float64\<close> is kept as the
  expression that the code evaluates.
\<close>

definition time_Since :: "env \<Rightarrow> int \<Rightarrow> int" where
  "time_Since e t = nanotime_Since e - t"

definition Microseconds :: "int \<Rightarrow> int" where
  "Microseconds d = (if 0 \<le> d then d div 1000 else - ((- d) div 1000))"

definition milliseconds :: "int \<Rightarrow> float64" where
  "milliseconds d = float64_div (float64_of_int (Microseconds d)) (float64_of_int 1000)"

subsection \<open>The handler\<close>

text \<open>\<open>reqHeader.Add\<close> under \<open>VisitAll\<close> (lines 97--100).\<close>

fun Header_Add :: "Header \<Rightarrow> string \<Rightarrow> string \<Rightarrow> Header" where
  "Header_Add [] k v = [(k, [v])]"
| "Header_Add ((k', vs) # hs) k v =
     (if k' = k then (k', vs @ [v]) # hs else (k', vs) # Header_Add hs k v)"

fun VisitAll :: "(string \<times> string) list \<Rightarrow> Header \<Rightarrow> Header" where
  "VisitAll [] hs = hs"
| "VisitAll ((k, v) # kvs) hs = VisitAll kvs (Header_Add hs k v)"

definition tracerKey :: string where
  "tracerKey = ''gofiber-contrib-tracer-fiber''"

definition instrumentationName :: string where
  "instrumentationName = ''github.com/gofiber/contrib/otelfiber''"

fun Locals_set :: "(string \<times> string) list \<Rightarrow> string \<Rightarrow> string \<Rightarrow> (string \<times> string) list" where
  "Locals_set [] k v = [(k, v)]"
| "Locals_set ((k', v') # ls) k v =
     (if k' = k then (k, v) # ls else (k', v') # Locals_set ls k v)"

text \<open>The request object on entry, once \<open>c.Locals(tracerKey, tracer)\<close> has run.\<close>

definition at_entry :: "Ctx \<Rightarrow> Ctx" where
  "at_entry c = c\<lparr>Locals := Locals_set (Locals c) tracerKey instrumentationName\<rparr>"

text \<open>Lines 136--149, the deferred teardown.\<close>

definition teardown :: "env \<Rightarrow> teardown_closure \<Rightarrow> state \<Rightarrow> state" where
  "teardown e k s =
     (case append_slice (growslice e) (store s) (responseMetricAttrs (vars k))
             (elems (store s) (responseAttrs k)) of
        (rma, h) \<Rightarrow>
          (let responRecord = attributesToRecordOptions (elems h rma);
               sc = savedCtx (vars k)
           in \<lparr>fiber = (fiber s)\<lparr>UserContext := sc\<rparr>,
               store = h,
               trace = trace s @
                 [ActiveRequests_Add sc (- 1) (requestMetric (vars k)),
                  Duration_Record sc (milliseconds (time_Since e (start (vars k)))) responRecord,
                  RequestSize_Record sc (requestSize k) responRecord,
                  ResponseSize_Record sc (responseSize k) responRecord,
                  cancel sc]\<rparr>))"

fun run_deferred :: "env \<Rightarrow> deferred \<Rightarrow> state \<Rightarrow> state" where
  "run_deferred e defer_span_End s = s\<lparr>trace := trace s @ [span_End]\<rparr>"
| "run_deferred e (defer_teardown k) s = teardown e k s"

text \<open>The defer stack, most recent first, run on return and on panic alike.\<close>

fun run_defers :: "env \<Rightarrow> deferred list \<Rightarrow> state \<Rightarrow> state" where
  "run_defers e [] s = s"
| "run_defers e (d # ds) s = run_defers e ds (run_deferred e d s)"

text \<open>Lines 84--117: everything up to the dispatch of \<open>c.Next()\<close>.\<close>

definition before_Next ::
  "env \<Rightarrow> (context \<Rightarrow> Header \<Rightarrow> context) \<Rightarrow> Ctx \<Rightarrow> heap \<Rightarrow> frame \<times> deferred list \<times> state" where
  "before_Next e extract c0 h0 =
     (let c1 = at_entry c0;
          sc = WithCancel (UserContext c1);
          t0 = nanotime_Now e
      in case new_slice h0 (httpServerMetricAttributesFromRequest e c1) of
        (rqa, h1) \<Rightarrow>
          (let rm = attributesToMetricOptions (elems h1 rqa);
               tr1 = [ActiveRequests_Add sc 1 rm]
           in case make_slice h1 (len rqa) of
             (rma, h2) \<Rightarrow>
               (let h3 = copy_slice h2 rma rqa;
                    reqHeader = VisitAll (Request_Header c1) [];
                    ctx1 = extract sc reqHeader;
                    opts = [trace_WithAttributes (httpServerTraceAttributesFromRequest e c1),
                            WithSpanKind SpanKindServer];
                    spanName = Path c1;
                    ctx2 = ContextWithSpan spanName ctx1;
                    tr2 = tr1 @ [tracer_Start ctx1 spanName opts];
                    c2 = c1\<lparr>UserContext := ctx2\<rparr>
                in (\<lparr>savedCtx = sc, start = t0, requestMetricsAttrs = rqa,
                     requestMetric = rm, responseMetricAttrs = rma\<rparr>,
                    [defer_span_End],
                    \<lparr>fiber = c2, store = h3, trace = tr2\<rparr>))))"

text \<open>
  Lines 120--125: \<open>c.Next()\<close>, and on an error \<open>span.RecordError\<close> and the application's
  error handler, whose own result is dropped.  \<open>Inl\<close> is a panic.
\<close>

definition serve :: "env \<Rightarrow> state \<Rightarrow> string \<times> state + state" where
  "serve e s =
     (let s1 = s\<lparr>trace := trace s @ [c_Next]\<rparr>
      in case Next e (fiber s1) of
        (Panics p, c') \<Rightarrow> Inl (p, s1\<lparr>fiber := c'\<rparr>)
      | (Returns None, c') \<Rightarrow> Inr (s1\<lparr>fiber := c'\<rparr>)
      | (Returns (Some err), c') \<Rightarrow>
          (let s2 = s1\<lparr>fiber := c', trace := trace s1 @ [span_RecordError err, App_ErrorHandler err]\<rparr>
           in case ErrorHandler e c' err of
             (Panics p, c'') \<Rightarrow> Inl (p, s2\<lparr>fiber := c''\<rparr>)
           | (Returns r, c'') \<Rightarrow> Inr (s2\<lparr>fiber := c''\<rparr>)))"

text \<open>Lines 127--161: after \<open>c.Next()\<close> has returned.\<close>

definition after_Next ::
  "env \<Rightarrow> (Ctx \<Rightarrow> string call \<times> Ctx) \<Rightarrow> frame \<Rightarrow> deferred list \<Rightarrow> state
     \<Rightarrow> go_error option call \<times> state" where
  "after_Next e formatter f defers s =
     (let c = fiber s
      in case new_slice (store s) (HTTPAttributesFromHTTPStatusCode e (Response_StatusCode c)) of
        (sa, h1) \<Rightarrow>
          (case append_slice (growslice e) h1 sa [KeyValue HTTPRouteKey (STRING (Route_Path c))] of
             (ra, h2) \<Rightarrow>
               (let rqs = int (length (Request_Body c));
                    rss = int (length (Response_Body c));
                    defers' = defer_teardown
                      \<lparr>vars = f, responseAttrs = ra, requestSize = rqs, responseSize = rss\<rparr> # defers
                in case append_slice (growslice e) h2 ra
                          [KeyValue HTTPResponseContentLengthKey (INT64 rss)] of
                  (sattrs, h3) \<Rightarrow>
                    (let s1 = s\<lparr>store := h3, trace := trace s @ [span_SetAttributes (elems h3 sattrs)]\<rparr>
                     in case formatter c of
                       (Panics p, c') \<Rightarrow> (Panics p, run_defers e defers' (s1\<lparr>fiber := c'\<rparr>))
                     | (Returns name, c') \<Rightarrow>
                         (case SpanStatusFromHTTPStatusCodeAndSpanKind e
                                 (Response_StatusCode c') SpanKindServer of
                            (spanStatus, spanMessage) \<Rightarrow>
                              (Returns None,
                               run_defers e defers'
                                 (s1\<lparr>fiber := c',
                                     trace := trace s1 @
                                       [span_SetName name,
                                        span_SetStatus spanStatus spanMessage]\<rparr>)))))))"

definition handler ::
  "env \<Rightarrow> (context \<Rightarrow> Header \<Rightarrow> context) \<Rightarrow> (Ctx \<Rightarrow> string call \<times> Ctx) \<Rightarrow> Ctx \<Rightarrow> heap
     \<Rightarrow> go_error option call \<times> state" where
  "handler e extract formatter c h =
     (case before_Next e extract c h of
        (f, defers, s) \<Rightarrow>
          (case serve e s of
             Inl (p, s') \<Rightarrow> (Panics p, run_defers e defers s')
           | Inr s' \<Rightarrow> after_Next e formatter f defers s'))"

definition defaultSpanNameFormatter :: "Ctx \<Rightarrow> string call \<times> Ctx" where
  "defaultSpanNameFormatter c = (Returns (Route_Path c), c)"

text \<open>
  Lines 76--82: the defaults of the configuration, resolved once, before any request.
  (Lines 38--74 create the tracer and the four instruments; a failed creation is handed
  to \<open>otel.Handle\<close> and the handler is built all the same.)
\<close>

definition resolve_Propagators :: "env \<Rightarrow> config \<Rightarrow> context \<Rightarrow> Header \<Rightarrow> context" where
  "resolve_Propagators e cfg =
     (case Propagators cfg of None \<Rightarrow> GetTextMapPropagator e | Some p \<Rightarrow> p)"

definition resolve_SpanNameFormatter :: "config \<Rightarrow> Ctx \<Rightarrow> string call \<times> Ctx" where
  "resolve_SpanNameFormatter cfg =
     (case SpanNameFormatter cfg of None \<Rightarrow> defaultSpanNameFormatter | Some fm \<Rightarrow> fm)"

definition Middleware :: "env \<Rightarrow> config \<Rightarrow> Ctx \<Rightarrow> heap \<Rightarrow> go_error option call \<times> state" where
  "Middleware e cfg = handler e (resolve_Propagators e cfg) (resolve_SpanNameFormatter cfg)"

subsection \<open>Points of a run, and what a trace shows\<close>

text \<open>The local variables and the state when \<open>c.Next()\<close> is about to be called.\<close>

definition frame_at_dispatch :: "env \<Rightarrow> config \<Rightarrow> Ctx \<Rightarrow> heap \<Rightarrow> frame" where
  "frame_at_dispatch e cfg c h = fst (before_Next e (resolve_Propagators e cfg) c h)"

definition at_dispatch :: "env \<Rightarrow> config \<Rightarrow> Ctx \<Rightarrow> heap \<Rightarrow> state" where
  "at_dispatch e cfg c h = snd (snd (before_Next e (resolve_Propagators e cfg) c h))"

text \<open>
  The downstream work of a request: \<open>Inr s\<close> when \<open>c.Next()\<close> and, after an error, the
  error handler have returned, leaving state \<open>s\<close>; \<open>Inl\<close> when one of them panicked.
\<close>

definition downstream :: "env \<Rightarrow> config \<Rightarrow> Ctx \<Rightarrow> heap \<Rightarrow> string \<times> state + state" where
  "downstream e cfg c h = serve e (at_dispatch e cfg c h)"

fun gauge_add :: "event \<Rightarrow> (int \<times> MeasurementOption list) list" where
  "gauge_add (ActiveRequests_Add ctx d os) = [(d, os)]"
| "gauge_add ev = []"

fun duration_record :: "event \<Rightarrow> (float64 \<times> MeasurementOption list) list" where
  "duration_record (Duration_Record ctx v os) = [(v, os)]"
| "duration_record ev = []"

fun request_size_record :: "event \<Rightarrow> (int \<times> MeasurementOption list) list" where
  "request_size_record (RequestSize_Record ctx v os) = [(v, os)]"
| "request_size_record ev = []"

fun response_size_record :: "event \<Rightarrow> (int \<times> MeasurementOption list) list" where
  "response_size_record (ResponseSize_Record ctx v os) = [(v, os)]"
| "response_size_record ev = []"

fun span_start_name :: "event \<Rightarrow> string list" where
  "span_start_name (tracer_Start ctx name os) = [name]"
| "span_start_name ev = []"

fun span_rename :: "event \<Rightarrow> string list" where
  "span_rename (span_SetName name) = [name]"
| "span_rename ev = []"

fun span_status :: "event \<Rightarrow> (Code \<times> string) list" where
  "span_status (span_SetStatus st msg) = [(st, msg)]"
| "span_status ev = []"

fun is_span_bracket :: "event \<Rightarrow> bool" where
  "is_span_bracket (tracer_Start ctx name os) = True"
| "is_span_bracket span_End = True"
| "is_span_bracket ev = False"

fun is_error_step :: "event \<Rightarrow> bool" where
  "is_error_step (span_RecordError err) = True"
| "is_error_step (App_ErrorHandler err) = True"
| "is_error_step (span_SetStatus st msg) = True"
| "is_error_step ev = False"

fun is_teardown_step :: "event \<Rightarrow> bool" where
  "is_teardown_step (ActiveRequests_Add ctx d os) = (d < 0)"
| "is_teardown_step (Duration_Record ctx v os) = True"
| "is_teardown_step (RequestSize_Record ctx v os) = True"
| "is_teardown_step (ResponseSize_Record ctx v os) = True"
| "is_teardown_step (cancel ctx) = True"
| "is_teardown_step ev = False"

text \<open>All records of one kind in a trace, in order.\<close>

definition collect :: "(event \<Rightarrow> 'a list) \<Rightarrow> event list \<Rightarrow> 'a list" where
  "collect f tr = concat (map f tr)"

text \<open>The part of a trace before \<open>c.Next()\<close> is dispatched, and the part from there on.\<close>

definition before_dispatch :: "event list \<Rightarrow> event list" where
  "before_dispatch tr = takeWhile (\<lambda>ev. ev \<noteq> c_Next) tr"

definition from_dispatch :: "event list \<Rightarrow> event list" where
  "from_dispatch tr = dropWhile (\<lambda>ev. ev \<noteq> c_Next) tr"

text \<open>
  The attribute set at recording time: the request-phase attributes, then the status
  code attributes, then the route, for the request object \<open>c'\<close> that the downstream
  handlers left.
\<close>

definition full_attributes :: "env \<Rightarrow> Ctx \<Rightarrow> Ctx \<Rightarrow> KeyValue list" where
  "full_attributes e c c' =
     fst (httpServerMetricAttributesFromRequest e (at_entry c))
     @ fst (HTTPAttributesFromHTTPStatusCode e (Response_StatusCode c'))
     @ [KeyValue HTTPRouteKey (STRING (Route_Path c'))]"

subsection \<open>The status rule of the semantic conventions\<close>

text \<open>
  Modelled from the spec: \<open>semconv.SpanStatusFromHTTPStatusCodeAndSpanKind\<close> is a function
  of the OpenTelemetry library and is not among the sources.  The spec gives its rule for
  a server span: response codes 100--499 map to the status unset, 500--599 to the status
  error.  For any other input the spec says nothing; the model answers unset there, and
  no statement below draws a conclusion from that branch.  The message is empty
  throughout.
\<close>

definition spec_SpanStatusFromHTTPStatusCodeAndSpanKind :: "int \<Rightarrow> SpanKind \<Rightarrow> Code \<times> string" where
  "spec_SpanStatusFromHTTPStatusCodeAndSpanKind code kind =
     (if kind = SpanKindServer \<and> 100 \<le> code \<and> code \<le> 499 then (Unset, [])
      else if kind = SpanKindServer \<and> 500 \<le> code \<and> code \<le> 599 then (Error, [])
      else (Unset, []))"

subsection \<open>Vocabulary of the proofs\<close>

text \<open>A slice whose array is allocated and holds at least the slice's elements.\<close>

definition wf_slice :: "heap \<Rightarrow> slice \<Rightarrow> bool" where
  "wf_slice h s \<longleftrightarrow> array s < length h \<and> len s \<le> length (h ! array s)"

text \<open>The events of lines 121--124, present when \<open>c.Next()\<close> returned an error.\<close>

definition error_steps :: "env \<Rightarrow> Ctx \<Rightarrow> event list" where
  "error_steps e c =
     (case fst (Next e c) of
        Returns (Some err) \<Rightarrow> [span_RecordError err, App_ErrorHandler err]
      | Returns None \<Rightarrow> []
      | Panics p \<Rightarrow> [])"

text \<open>The events of lines 156--159, present when the span-name formatter returned.\<close>

definition rename_steps :: "env \<Rightarrow> (Ctx \<Rightarrow> string call \<times> Ctx) \<Rightarrow> Ctx \<Rightarrow> event list" where
  "rename_steps e fm c =
     (case fm c of
        (Panics p, c') \<Rightarrow> []
      | (Returns name, c') \<Rightarrow>
          [span_SetName name,
           span_SetStatus
             (fst (SpanStatusFromHTTPStatusCodeAndSpanKind e (Response_StatusCode c') SpanKindServer))
             (snd (SpanStatusFromHTTPStatusCodeAndSpanKind e (Response_StatusCode c') SpanKindServer))])"

text \<open>The events of the deferred teardown, for the attribute list it records with.\<close>

definition teardown_steps ::
  "env \<Rightarrow> frame \<Rightarrow> KeyValue list \<Rightarrow> int \<Rightarrow> int \<Rightarrow> event list" where
  "teardown_steps e f attrs rqs rss =
     [ActiveRequests_Add (savedCtx f) (- 1) (requestMetric f),
      Duration_Record (savedCtx f) (milliseconds (nanotime_Since e - start f))
        (attributesToRecordOptions attrs),
      RequestSize_Record (savedCtx f) rqs (attributesToRecordOptions attrs),
      ResponseSize_Record (savedCtx f) rss (attributesToRecordOptions attrs),
      cancel (savedCtx f)]"

subsection \<open>Sample requests\<close>

text \<open>
  A GET of \<open>/users/42\<close> that the router matches to \<open>/users/:id\<close> and that is answered
  with 200 and a body of 120 bytes.  The middleware was entered at 1000 ns and read the
  clock again at 2600 ns.
\<close>

definition sample_request :: Ctx where
  "sample_request =
     \<lparr>Path = ''/users/42'', Route_Path = ''/'',
      Request_Header = [(''Host'', ''example.com''), (''Accept'', ''*/*'')],
      Request_Body = ''{}'', Response_StatusCode = 200, Response_Body = [],
      UserContext = Background, Locals = []\<rparr>"

definition sample_env :: env where
  "sample_env =
     \<lparr>Next = (\<lambda>c. (Returns None,
                c\<lparr>Route_Path := ''/users/:id'', Response_StatusCode := 200,
                  Response_Body := replicate 120 (CHR ''x'')\<rparr>)),
      ErrorHandler = (\<lambda>c err. (Returns None,
                c\<lparr>Response_StatusCode := 500, Response_Body := err\<rparr>)),
      httpServerMetricAttributesFromRequest =
        (\<lambda>c. ([KeyValue ''http.method'' (STRING ''GET''),
                KeyValue ''http.scheme'' (STRING ''http'')], 2)),
      httpServerTraceAttributesFromRequest =
        (\<lambda>c. [KeyValue ''http.method'' (STRING ''GET''),
               KeyValue ''http.target'' (STRING (Path c))]),
      HTTPAttributesFromHTTPStatusCode =
        (\<lambda>code. ([KeyValue ''http.status_code'' (INT64 code)], 0)),
      SpanStatusFromHTTPStatusCodeAndSpanKind = spec_SpanStatusFromHTTPStatusCodeAndSpanKind,
      GetTextMapPropagator = (\<lambda>ctx hs. ctx),
      growslice = (\<lambda>old need. 2 * old),
      nanotime_Now = 1000,
      nanotime_Since = 2600\<rparr>"

definition sample_config :: config where
  "sample_config = \<lparr>Propagators = None, SpanNameFormatter = None\<rparr>"

text \<open>The same request when the handler returns an error that is rendered as a 404.\<close>

definition not_found_env :: env where
  "not_found_env =
     sample_env
       \<lparr>Next := (\<lambda>c. (Returns (Some ''no such user''), c\<lparr>Route_Path := ''/users/:id''\<rparr>)),
        ErrorHandler := (\<lambda>c err. (Returns None,
                c\<lparr>Response_StatusCode := 404, Response_Body := err\<rparr>))\<rparr>"

text \<open>The same request when the handler returns an error that is rendered as a 500.\<close>

definition server_error_env :: env where
  "server_error_env =
     sample_env
       \<lparr>Next := (\<lambda>c. (Returns (Some ''db down''), c\<lparr>Route_Path := ''/users/:id''\<rparr>))\<rparr>"

text \<open>The same request when the handler panics.\<close>

definition panic_env :: env where
  "panic_env = sample_env\<lparr>Next := (\<lambda>c. (Panics ''boom'', c\<lparr>Route_Path := ''/users/:id''\<rparr>))\<rparr>"

text \<open>The same request when the handler replaces the two-byte request body by a longer one.\<close>

definition rewriting_env :: env where
  "rewriting_env =
     sample_env
       \<lparr>Next := (\<lambda>c. (Returns None,
                c\<lparr>Route_Path := ''/users/:id'', Request_Body := ''id=42&name=x''\<rparr>))\<rparr>"

section \<open>Slices and option lists\<close>

lemma options_loop_eq:
  "i + length attrs \<le> length options \<Longrightarrow>
   options_loop i attrs options =
     take i options @ map (\<lambda>a. WithAttributes [a]) attrs @ drop (i + length attrs) options"
proof (induction i attrs options rule: options_loop.induct)
  case (1 i options)
  then show ?case by simp
next
  case (2 i attr attrs options)
  have "i < length options" using 2(2) by simp
  then show ?case using 2
    by (simp add: take_Suc_conv_app_nth)
qed

lemma attributesToMetricOptions_map:
  "attributesToMetricOptions attrs = map (\<lambda>a. WithAttributes [a]) attrs"
  by (simp add: attributesToMetricOptions_def options_loop_eq)

lemma attributesToRecordOptions_map:
  "attributesToRecordOptions attrs = map (\<lambda>a. WithAttributes [a]) attrs"
  by (simp add: attributesToRecordOptions_def options_loop_eq)

lemma new_slice_props:
  assumes "new_slice h r = (s, h')"
  shows "array s = length h" and "length h' = Suc (length h)" and "elems h' s = fst r"
    and "wf_slice h' s" and "len s = length (fst r)"
    and "a < length h \<Longrightarrow> backing h' a = backing h a"
    and "a < length h \<Longrightarrow> h' ! a = h ! a"
  using assms
  by (auto simp: new_slice_def elems_def backing_def wf_slice_def nth_append split: prod.splits)

lemma make_slice_props:
  assumes "make_slice h n = (s, h')"
  shows "array s = length h" and "length h' = Suc (length h)" and "wf_slice h' s"
    and "len s = n" and "cap s = n"
    and "a < length h \<Longrightarrow> backing h' a = backing h a"
    and "a < length h \<Longrightarrow> h' ! a = h ! a"
  using assms
  by (auto simp: make_slice_def elems_def backing_def wf_slice_def nth_append)

lemma copy_slice_props:
  assumes "wf_slice h dst" and "wf_slice h src" and "array dst \<noteq> array src"
    and "len dst = len src"
  shows "length (copy_slice h dst src) = length h"
    and "elems (copy_slice h dst src) dst = elems h src"
    and "wf_slice (copy_slice h dst src) dst"
    and "a \<noteq> array dst \<Longrightarrow> backing (copy_slice h dst src) a = backing h a"
    and "a \<noteq> array dst \<Longrightarrow> copy_slice h dst src ! a = h ! a"
  using assms
  by (auto simp: copy_slice_def elems_def backing_def wf_slice_def Let_def)

lemma append_slice_props:
  assumes "wf_slice h s" and "append_slice g h s xs = (s', h')"
  shows "length h \<le> length h'" and "elems h' s' = elems h s @ xs" and "wf_slice h' s'"
    and "a < length h \<Longrightarrow> a \<noteq> array s \<Longrightarrow> backing h' a = backing h a"
    and "a < length h \<Longrightarrow> a \<noteq> array s \<Longrightarrow> h' ! a = h ! a"
    and "elems h' s = elems h s"
    and "wf_slice h' s"
    and "array s' = array s \<or> array s' = length h"
  using assms
  by (auto simp: append_slice_def elems_def backing_def wf_slice_def Let_def nth_append
      split: if_splits)

lemma wf_slice_frame:
  "wf_slice h s \<Longrightarrow> length h \<le> length h' \<Longrightarrow> h' ! array s = h ! array s \<Longrightarrow> wf_slice h' s"
  by (simp add: wf_slice_def)

lemma elems_frame:
  "wf_slice h s \<Longrightarrow> length h \<le> length h' \<Longrightarrow> h' ! array s = h ! array s \<Longrightarrow> elems h' s = elems h s"
  by (simp add: wf_slice_def elems_def backing_def)

section \<open>The phases of the handler\<close>

lemma before_Next_facts:
  assumes "before_Next e x c h = (f, ds, s0)"
  shows "ds = [defer_span_End]"
    and "savedCtx f = WithCancel (UserContext c)"
    and "start f = nanotime_Now e"
    and "requestMetric f =
           attributesToMetricOptions (fst (httpServerMetricAttributesFromRequest e (at_entry c)))"
    and "array (requestMetricsAttrs f) = length h"
    and "array (responseMetricAttrs f) = Suc (length h)"
    and "length (store s0) = length h + 2"
    and "elems (store s0) (requestMetricsAttrs f) =
           fst (httpServerMetricAttributesFromRequest e (at_entry c))"
    and "elems (store s0) (responseMetricAttrs f) =
           fst (httpServerMetricAttributesFromRequest e (at_entry c))"
    and "wf_slice (store s0) (responseMetricAttrs f)"
    and "wf_slice (store s0) (requestMetricsAttrs f)"
    and "trace s0 =
           [ActiveRequests_Add (savedCtx f) 1 (requestMetric f),
            tracer_Start (x (savedCtx f) (VisitAll (Request_Header c) [])) (Path c)
              [trace_WithAttributes (httpServerTraceAttributesFromRequest e (at_entry c)),
               WithSpanKind SpanKindServer]]"
    and "fiber s0 =
           (at_entry c)\<lparr>UserContext :=
              ContextWithSpan (Path c) (x (savedCtx f) (VisitAll (Request_Header c) []))\<rparr>"
proof -
  obtain rqa h1 where n: "new_slice h (httpServerMetricAttributesFromRequest e (at_entry c)) = (rqa, h1)"
    by (cases "new_slice h (httpServerMetricAttributesFromRequest e (at_entry c))")
  obtain rma h2 where m: "make_slice h1 (len rqa) = (rma, h2)"
    by (cases "make_slice h1 (len rqa)")
  note np = new_slice_props[OF n]
  note mp = make_slice_props[OF m]
  have wq: "wf_slice h2 rqa"
    using np mp by (simp add: wf_slice_def)
  have ne: "array rma \<noteq> array rqa" using np mp by simp
  have ll: "len rma = len rqa" using mp by simp
  note cp = copy_slice_props[OF mp(3) wq ne ll]
  have eq: "elems h2 rqa = fst (httpServerMetricAttributesFromRequest e (at_entry c))"
    using np mp by (simp add: elems_def)
  have f: "f = \<lparr>savedCtx = WithCancel (UserContext (at_entry c)), start = nanotime_Now e,
                 requestMetricsAttrs = rqa,
                 requestMetric = attributesToMetricOptions (elems h1 rqa),
                 responseMetricAttrs = rma\<rparr>"
    and d: "ds = [defer_span_End]"
    and s: "store s0 = copy_slice h2 rma rqa"
    using assms n m by (auto simp: before_Next_def Let_def)
  show "ds = [defer_span_End]" by (rule d)
  show "savedCtx f = WithCancel (UserContext c)" by (simp add: f at_entry_def)
  show "start f = nanotime_Now e" by (simp add: f)
  show "requestMetric f =
           attributesToMetricOptions (fst (httpServerMetricAttributesFromRequest e (at_entry c)))"
    using np by (simp add: f)
  show "array (requestMetricsAttrs f) = length h" using np by (simp add: f)
  show "array (responseMetricAttrs f) = Suc (length h)" using np mp by (simp add: f)
  show "length (store s0) = length h + 2" using cp np mp by (simp add: s)
  show "elems (store s0) (responseMetricAttrs f) =
           fst (httpServerMetricAttributesFromRequest e (at_entry c))"
    using cp eq by (simp add: s f)
  show "wf_slice (store s0) (responseMetricAttrs f)" using cp by (simp add: s f)
  have keep: "copy_slice h2 rma rqa ! array rqa = h2 ! array rqa"
    using cp(5)[of "array rqa"] ne by simp
  show "wf_slice (store s0) (requestMetricsAttrs f)"
    using wq keep cp(1) by (simp add: s f wf_slice_def)
  show "elems (store s0) (requestMetricsAttrs f) =
           fst (httpServerMetricAttributesFromRequest e (at_entry c))"
    using elems_frame[OF wq _ keep] cp(1) eq by (simp add: s f)
  show "trace s0 =
           [ActiveRequests_Add (savedCtx f) 1 (requestMetric f),
            tracer_Start (x (savedCtx f) (VisitAll (Request_Header c) [])) (Path c)
              [trace_WithAttributes (httpServerTraceAttributesFromRequest e (at_entry c)),
               WithSpanKind SpanKindServer]]"
    using assms n m by (auto simp: before_Next_def Let_def at_entry_def)
  show "fiber s0 =
           (at_entry c)\<lparr>UserContext :=
              ContextWithSpan (Path c) (x (savedCtx f) (VisitAll (Request_Header c) []))\<rparr>"
    using assms n m by (auto simp: before_Next_def Let_def at_entry_def)
qed

lemma serve_facts:
  assumes "serve e s = Inr s1 \<or> serve e s = Inl (p, s1)"
  shows "store s1 = store s"
    and "trace s1 = trace s @ c_Next # error_steps e (fiber s)"
  using assms
  by (auto simp: serve_def Let_def error_steps_def split: prod.splits call.splits option.splits)

lemma serve_returns_fiber:
  assumes "serve e s = Inr s1"
  shows "fiber s1 =
     (case Next e (fiber s) of
        (Returns (Some err), c') \<Rightarrow> snd (ErrorHandler e c' err)
      | (r, c') \<Rightarrow> c')"
  using assms
  by (auto simp: serve_def Let_def split: prod.splits call.splits option.splits)

lemma teardown_facts:
  assumes "wf_slice (store s) (responseMetricAttrs (vars k))"
  shows "trace (teardown e k s) =
           trace s @ teardown_steps e (vars k)
             (elems (store s) (responseMetricAttrs (vars k)) @ elems (store s) (responseAttrs k))
             (requestSize k) (responseSize k)"
    and "fiber (teardown e k s) = (fiber s)\<lparr>UserContext := savedCtx (vars k)\<rparr>"
    and "length (store s) \<le> length (store (teardown e k s))"
    and "a < length (store s) \<Longrightarrow> a \<noteq> array (responseMetricAttrs (vars k)) \<Longrightarrow>
           backing (store (teardown e k s)) a = backing (store s) a"
proof -
  obtain rma h where a: "append_slice (growslice e) (store s) (responseMetricAttrs (vars k))
             (elems (store s) (responseAttrs k)) = (rma, h)"
    by (cases "append_slice (growslice e) (store s) (responseMetricAttrs (vars k))
             (elems (store s) (responseAttrs k))")
  note ap = append_slice_props[OF assms a]
  show "trace (teardown e k s) =
           trace s @ teardown_steps e (vars k)
             (elems (store s) (responseMetricAttrs (vars k)) @ elems (store s) (responseAttrs k))
             (requestSize k) (responseSize k)"
    using a ap(2) by (simp add: teardown_def teardown_steps_def Let_def time_Since_def)
  show "fiber (teardown e k s) = (fiber s)\<lparr>UserContext := savedCtx (vars k)\<rparr>"
    using a by (simp add: teardown_def Let_def)
  show "length (store s) \<le> length (store (teardown e k s))"
    using a ap(1) by (simp add: teardown_def Let_def)
  show "a < length (store s) \<Longrightarrow> a \<noteq> array (responseMetricAttrs (vars k)) \<Longrightarrow>
           backing (store (teardown e k s)) a = backing (store s) a"
    using a ap(4) by (simp add: teardown_def Let_def)
qed

lemma after_Next_facts:
  assumes wf: "wf_slice (store s) (responseMetricAttrs f)"
  shows "fst (after_Next e fm f [defer_span_End] s) =
           (case fst (fm (fiber s)) of Panics p \<Rightarrow> Panics p | Returns name \<Rightarrow> Returns None)"
    and "trace (snd (after_Next e fm f [defer_span_End] s)) =
           trace s
           @ span_SetAttributes
               (fst (HTTPAttributesFromHTTPStatusCode e (Response_StatusCode (fiber s)))
                @ [KeyValue HTTPRouteKey (STRING (Route_Path (fiber s))),
                   KeyValue HTTPResponseContentLengthKey
                     (INT64 (int (length (Response_Body (fiber s)))))])
             # rename_steps e fm (fiber s)
           @ teardown_steps e f
               (elems (store s) (responseMetricAttrs f)
                @ fst (HTTPAttributesFromHTTPStatusCode e (Response_StatusCode (fiber s)))
                @ [KeyValue HTTPRouteKey (STRING (Route_Path (fiber s)))])
               (int (length (Request_Body (fiber s))))
               (int (length (Response_Body (fiber s))))
           @ [span_End]"
    and "fiber (snd (after_Next e fm f [defer_span_End] s)) =
           (snd (fm (fiber s)))\<lparr>UserContext := savedCtx f\<rparr>"
    and "a < length (store s) \<Longrightarrow> a \<noteq> array (responseMetricAttrs f) \<Longrightarrow>
           backing (store (snd (after_Next e fm f [defer_span_End] s))) a = backing (store s) a"
proof -
  let ?rma = "responseMetricAttrs f"
  let ?st = "HTTPAttributesFromHTTPStatusCode e (Response_StatusCode (fiber s))"
  let ?route = "KeyValue HTTPRouteKey (STRING (Route_Path (fiber s)))"
  let ?cl = "KeyValue HTTPResponseContentLengthKey (INT64 (int (length (Response_Body (fiber s)))))"
  obtain sa h1 where n: "new_slice (store s) ?st = (sa, h1)"
    by (cases "new_slice (store s) ?st")
  obtain ra h2 where a1: "append_slice (growslice e) h1 sa [?route] = (ra, h2)"
    by (cases "append_slice (growslice e) h1 sa [?route]")
  obtain sattrs h3 where a2: "append_slice (growslice e) h2 ra [?cl] = (sattrs, h3)"
    by (cases "append_slice (growslice e) h2 ra [?cl]")
  note np = new_slice_props[OF n]
  note p1 = append_slice_props[OF np(4) a1]
  note p2 = append_slice_props[OF p1(3) a2]
  have lt: "array ?rma < length (store s)" using wf by (simp add: wf_slice_def)
  have ne1: "array ?rma \<noteq> array sa" using lt np(1) by simp
  have ne2: "array ?rma \<noteq> array ra" using lt np(1,2) p1(8) by auto
  have k1: "h1 ! array ?rma = store s ! array ?rma" using np(7)[OF lt] .
  have k2: "h2 ! array ?rma = h1 ! array ?rma" using p1(5)[of "array ?rma"] lt np(2) ne1 by simp
  have k3: "h3 ! array ?rma = h2 ! array ?rma"
    using p2(5)[of "array ?rma"] lt np(2) p1(1) ne2 by simp
  have len3: "length (store s) \<le> length h3" using np(2) p1(1) p2(1) by simp
  have keep: "h3 ! array ?rma = store s ! array ?rma" using k1 k2 k3 by simp
  have wf3: "wf_slice h3 ?rma" using wf_slice_frame[OF wf len3 keep] .
  have el3: "elems h3 ?rma = elems (store s) ?rma" using elems_frame[OF wf len3 keep] .
  have era: "elems h3 ra = fst ?st @ [?route]" using p2(6) p1(2) np(3) by simp
  have esa: "elems h3 sattrs = fst ?st @ [?route, ?cl]" using p2(2) p1(2) np(3) by simp
  define k where "k = \<lparr>vars = f, responseAttrs = ra,
      requestSize = int (length (Request_Body (fiber s))),
      responseSize = int (length (Response_Body (fiber s)))\<rparr>"
  have kv: "vars k = f" "responseAttrs k = ra"
    "requestSize k = int (length (Request_Body (fiber s)))"
    "responseSize k = int (length (Response_Body (fiber s)))"
    by (simp_all add: k_def)
  have frame3: "backing h3 b = backing (store s) b"
    if "b < length (store s)" "b \<noteq> array ?rma" for b
  proof -
    have "b \<noteq> array sa" using that np(1) by simp
    moreover have "b \<noteq> array ra" using that np(1,2) p1(8) by auto
    ultimately show ?thesis
      using that np(6)[of b] p1(4)[of b] p2(4)[of b] np(2) p1(1) by simp
  qed
  obtain r c' where fm: "fm (fiber s) = (r, c')" by (cases "fm (fiber s)")
  define s1 where "s1 = s\<lparr>store := h3, trace := trace s @ [span_SetAttributes (elems h3 sattrs)]\<rparr>"
  show "fst (after_Next e fm f [defer_span_End] s) =
           (case fst (fm (fiber s)) of Panics p \<Rightarrow> Panics p | Returns name \<Rightarrow> Returns None)"
    using n a1 a2 fm
    by (cases r) (simp_all add: after_Next_def Let_def split: prod.splits)
  have res: "snd (after_Next e fm f [defer_span_End] s) =
      (teardown e k (s1\<lparr>fiber := c', trace := trace s1 @ rename_steps e fm (fiber s)\<rparr>))
        \<lparr>trace := trace (teardown e k (s1\<lparr>fiber := c', trace := trace s1 @ rename_steps e fm (fiber s)\<rparr>))
           @ [span_End]\<rparr>"
    using n a1 a2 fm
    by (cases r; cases s)
      (simp_all add: after_Next_def Let_def rename_steps_def k_def s1_def split: prod.splits)
  let ?s2 = "s1\<lparr>fiber := c', trace := trace s1 @ rename_steps e fm (fiber s)\<rparr>"
  have st2: "store ?s2 = h3" by (simp add: s1_def)
  have wfk: "wf_slice (store ?s2) (responseMetricAttrs (vars k))" using wf3 by (simp add: st2 kv)
  note tp = teardown_facts[OF wfk, where e = e]
  show "trace (snd (after_Next e fm f [defer_span_End] s)) =
           trace s
           @ span_SetAttributes (fst ?st @ [?route, ?cl])
             # rename_steps e fm (fiber s)
           @ teardown_steps e f (elems (store s) ?rma @ fst ?st @ [?route])
               (int (length (Request_Body (fiber s))))
               (int (length (Response_Body (fiber s))))
           @ [span_End]"
    unfolding res using tp(1) el3 era esa by (simp add: kv s1_def)
  show "fiber (snd (after_Next e fm f [defer_span_End] s)) =
           (snd (fm (fiber s)))\<lparr>UserContext := savedCtx f\<rparr>"
    unfolding res using tp(2) fm by (simp add: kv s1_def)
  show "backing (store (snd (after_Next e fm f [defer_span_End] s))) a = backing (store s) a"
    if "a < length (store s)" "a \<noteq> array ?rma"
  proof -
    have "a < length (store ?s2)" using that len3 by (simp add: st2)
    then have "backing (store (teardown e k ?s2)) a = backing (store ?s2) a"
      using tp(4)[of a] that by (simp add: kv)
    then show ?thesis unfolding res using frame3[OF that] by (simp add: st2)
  qed
qed

section \<open>Whole runs\<close>

lemma Middleware_unfold:
  "Middleware e cfg c h =
     (case downstream e cfg c h of
        Inl (p, s') \<Rightarrow> (Panics p, run_defers e [defer_span_End] s')
      | Inr s' \<Rightarrow>
          after_Next e (resolve_SpanNameFormatter cfg) (frame_at_dispatch e cfg c h)
            [defer_span_End] s')"
proof -
  obtain f ds s0 where b: "before_Next e (resolve_Propagators e cfg) c h = (f, ds, s0)"
    by (cases "before_Next e (resolve_Propagators e cfg) c h")
  have ds: "ds = [defer_span_End]" using before_Next_facts(1)[OF b] .
  have f: "frame_at_dispatch e cfg c h = f" and s: "at_dispatch e cfg c h = s0"
    using b by (simp_all add: frame_at_dispatch_def at_dispatch_def)
  show ?thesis
    unfolding f downstream_def s
    using b ds by (simp add: Middleware_def handler_def)
qed

lemma at_dispatch_facts:
  shows "savedCtx (frame_at_dispatch e cfg c h) = WithCancel (UserContext c)"
    and "start (frame_at_dispatch e cfg c h) = nanotime_Now e"
    and "requestMetric (frame_at_dispatch e cfg c h) =
           attributesToMetricOptions (fst (httpServerMetricAttributesFromRequest e (at_entry c)))"
    and "array (requestMetricsAttrs (frame_at_dispatch e cfg c h)) = length h"
    and "array (responseMetricAttrs (frame_at_dispatch e cfg c h)) = Suc (length h)"
    and "length (store (at_dispatch e cfg c h)) = length h + 2"
    and "elems (store (at_dispatch e cfg c h)) (requestMetricsAttrs (frame_at_dispatch e cfg c h)) =
           fst (httpServerMetricAttributesFromRequest e (at_entry c))"
    and "elems (store (at_dispatch e cfg c h)) (responseMetricAttrs (frame_at_dispatch e cfg c h)) =
           fst (httpServerMetricAttributesFromRequest e (at_entry c))"
    and "wf_slice (store (at_dispatch e cfg c h)) (responseMetricAttrs (frame_at_dispatch e cfg c h))"
    and "wf_slice (store (at_dispatch e cfg c h)) (requestMetricsAttrs (frame_at_dispatch e cfg c h))"
    and "trace (at_dispatch e cfg c h) =
           [ActiveRequests_Add (WithCancel (UserContext c)) 1
              (attributesToMetricOptions (fst (httpServerMetricAttributesFromRequest e (at_entry c)))),
            tracer_Start
              (resolve_Propagators e cfg (WithCancel (UserContext c)) (VisitAll (Request_Header c) []))
              (Path c)
              [trace_WithAttributes (httpServerTraceAttributesFromRequest e (at_entry c)),
               WithSpanKind SpanKindServer]]"
    and "Request_Body (fiber (at_dispatch e cfg c h)) = Request_Body c"
proof -
  obtain f ds s0 where b: "before_Next e (resolve_Propagators e cfg) c h = (f, ds, s0)"
    by (cases "before_Next e (resolve_Propagators e cfg) c h")
  note bf = before_Next_facts[OF b]
  have f: "frame_at_dispatch e cfg c h = f" and s: "at_dispatch e cfg c h = s0"
    using b by (simp_all add: frame_at_dispatch_def at_dispatch_def)
  show "savedCtx (frame_at_dispatch e cfg c h) = WithCancel (UserContext c)"
    unfolding f by (rule bf)
  show "start (frame_at_dispatch e cfg c h) = nanotime_Now e"
    unfolding f by (rule bf)
  show "requestMetric (frame_at_dispatch e cfg c h) =
           attributesToMetricOptions (fst (httpServerMetricAttributesFromRequest e (at_entry c)))"
    unfolding f by (rule bf)
  show "array (requestMetricsAttrs (frame_at_dispatch e cfg c h)) = length h"
    unfolding f by (rule bf)
  show "array (responseMetricAttrs (frame_at_dispatch e cfg c h)) = Suc (length h)"
    unfolding f by (rule bf)
  show "length (store (at_dispatch e cfg c h)) = length h + 2"
    unfolding s by (rule bf)
  show "elems (store (at_dispatch e cfg c h)) (requestMetricsAttrs (frame_at_dispatch e cfg c h)) =
           fst (httpServerMetricAttributesFromRequest e (at_entry c))"
    unfolding f s by (rule bf)
  show "elems (store (at_dispatch e cfg c h)) (responseMetricAttrs (frame_at_dispatch e cfg c h)) =
           fst (httpServerMetricAttributesFromRequest e (at_entry c))"
    unfolding f s by (rule bf)
  show "wf_slice (store (at_dispatch e cfg c h)) (responseMetricAttrs (frame_at_dispatch e cfg c h))"
    unfolding f s by (rule bf)
  show "wf_slice (store (at_dispatch e cfg c h)) (requestMetricsAttrs (frame_at_dispatch e cfg c h))"
    unfolding f s by (rule bf)
  show "trace (at_dispatch e cfg c h) =
           [ActiveRequests_Add (WithCancel (UserContext c)) 1
              (attributesToMetricOptions (fst (httpServerMetricAttributesFromRequest e (at_entry c)))),
            tracer_Start
              (resolve_Propagators e cfg (WithCancel (UserContext c)) (VisitAll (Request_Header c) []))
              (Path c)
              [trace_WithAttributes (httpServerTraceAttributesFromRequest e (at_entry c)),
               WithSpanKind SpanKindServer]]"
    unfolding s using bf(12) bf(2,4) by simp
  show "Request_Body (fiber (at_dispatch e cfg c h)) = Request_Body c"
    unfolding s using bf(13) by (simp add: at_entry_def)
qed

text \<open>The run of a request whose downstream work returned.\<close>

lemma Middleware_returned:
  assumes d: "downstream e cfg c h = Inr s1"
  shows "fst (Middleware e cfg c h) =
           (case fst (resolve_SpanNameFormatter cfg (fiber s1)) of
              Panics p \<Rightarrow> Panics p | Returns name \<Rightarrow> Returns None)"
    and "trace (snd (Middleware e cfg c h)) =
           trace (at_dispatch e cfg c h)
           @ c_Next # error_steps e (fiber (at_dispatch e cfg c h))
           @ span_SetAttributes
               (fst (HTTPAttributesFromHTTPStatusCode e (Response_StatusCode (fiber s1)))
                @ [KeyValue HTTPRouteKey (STRING (Route_Path (fiber s1))),
                   KeyValue HTTPResponseContentLengthKey
                     (INT64 (int (length (Response_Body (fiber s1)))))])
             # rename_steps e (resolve_SpanNameFormatter cfg) (fiber s1)
           @ teardown_steps e (frame_at_dispatch e cfg c h) (full_attributes e c (fiber s1))
               (int (length (Request_Body (fiber s1))))
               (int (length (Response_Body (fiber s1))))
           @ [span_End]"
    and "fiber (snd (Middleware e cfg c h)) =
           (snd (resolve_SpanNameFormatter cfg (fiber s1)))\<lparr>UserContext := WithCancel (UserContext c)\<rparr>"
    and "backing (store (snd (Middleware e cfg c h))) (length h) =
           backing (store (at_dispatch e cfg c h)) (length h)"
proof -
  let ?f = "frame_at_dispatch e cfg c h"
  let ?s0 = "at_dispatch e cfg c h"
  note af = at_dispatch_facts[of e cfg c h]
  have sv: "serve e ?s0 = Inr s1 \<or> serve e ?s0 = Inl (undefined, s1)"
    using d by (simp add: downstream_def)
  note sf = serve_facts[OF sv]
  have wf: "wf_slice (store s1) (responseMetricAttrs ?f)" using af(9) by (simp add: sf(1))
  note an = after_Next_facts[OF wf, where e = e and fm = "resolve_SpanNameFormatter cfg"]
  have M: "Middleware e cfg c h =
             after_Next e (resolve_SpanNameFormatter cfg) ?f [defer_span_End] s1"
    using d by (simp add: Middleware_unfold)
  show "fst (Middleware e cfg c h) =
           (case fst (resolve_SpanNameFormatter cfg (fiber s1)) of
              Panics p \<Rightarrow> Panics p | Returns name \<Rightarrow> Returns None)"
    unfolding M by (rule an(1))
  have el: "elems (store s1) (responseMetricAttrs ?f) =
              fst (httpServerMetricAttributesFromRequest e (at_entry c))"
    using af(8) by (simp add: sf(1))
  show "trace (snd (Middleware e cfg c h)) =
           trace ?s0
           @ c_Next # error_steps e (fiber ?s0)
           @ span_SetAttributes
               (fst (HTTPAttributesFromHTTPStatusCode e (Response_StatusCode (fiber s1)))
                @ [KeyValue HTTPRouteKey (STRING (Route_Path (fiber s1))),
                   KeyValue HTTPResponseContentLengthKey
                     (INT64 (int (length (Response_Body (fiber s1)))))])
             # rename_steps e (resolve_SpanNameFormatter cfg) (fiber s1)
           @ teardown_steps e ?f (full_attributes e c (fiber s1))
               (int (length (Request_Body (fiber s1))))
               (int (length (Response_Body (fiber s1))))
           @ [span_End]"
    unfolding M an(2) by (simp add: sf(2) el full_attributes_def)
  show "fiber (snd (Middleware e cfg c h)) =
           (snd (resolve_SpanNameFormatter cfg (fiber s1)))\<lparr>UserContext := WithCancel (UserContext c)\<rparr>"
    unfolding M an(3) by (simp add: af(1))
  have "length h < length (store s1)" using af(6) by (simp add: sf(1))
  moreover have "length h \<noteq> array (responseMetricAttrs ?f)" using af(5) by simp
  ultimately show "backing (store (snd (Middleware e cfg c h))) (length h) =
           backing (store ?s0) (length h)"
    unfolding M using an(4)[of "length h"] by (simp add: sf(1))
qed

text \<open>The run of a request whose downstream work panicked.\<close>

lemma Middleware_panicked:
  assumes d: "downstream e cfg c h = Inl (p, s1)"
  shows "fst (Middleware e cfg c h) = Panics p"
    and "trace (snd (Middleware e cfg c h)) =
           trace (at_dispatch e cfg c h)
           @ c_Next # error_steps e (fiber (at_dispatch e cfg c h)) @ [span_End]"
    and "store (snd (Middleware e cfg c h)) = store (at_dispatch e cfg c h)"
    and "fiber (snd (Middleware e cfg c h)) = fiber s1"
proof -
  have sv: "serve e (at_dispatch e cfg c h) = Inr s1 \<or> serve e (at_dispatch e cfg c h) = Inl (p, s1)"
    using d by (simp add: downstream_def)
  note sf = serve_facts[OF sv]
  have M: "Middleware e cfg c h = (Panics p, s1\<lparr>trace := trace s1 @ [span_End]\<rparr>)"
    using d by (simp add: Middleware_unfold)
  show "fst (Middleware e cfg c h) = Panics p" by (simp add: M)
  show "trace (snd (Middleware e cfg c h)) =
           trace (at_dispatch e cfg c h)
           @ c_Next # error_steps e (fiber (at_dispatch e cfg c h)) @ [span_End]"
    by (simp add: M sf(2))
  show "store (snd (Middleware e cfg c h)) = store (at_dispatch e cfg c h)"
    by (simp add: M sf(1))
  show "fiber (snd (Middleware e cfg c h)) = fiber s1" by (simp add: M)
qed

section \<open>Reading traces\<close>

lemma collect_Nil: "collect f [] = []"
  by (simp add: collect_def)

lemma collect_Cons: "collect f (ev # tr) = f ev @ collect f tr"
  by (simp add: collect_def)

lemma collect_append: "collect f (xs @ ys) = collect f xs @ collect f ys"
  by (simp add: collect_def)

lemmas collect_simps = collect_Nil collect_Cons collect_append

lemma error_steps_cases:
  "error_steps e c = [] \<or> (\<exists>err. error_steps e c = [span_RecordError err, App_ErrorHandler err])"
  by (simp add: error_steps_def split: call.splits option.splits)

lemma rename_steps_cases:
  "rename_steps e fm c = [] \<or>
   (\<exists>name st msg. rename_steps e fm c = [span_SetName name, span_SetStatus st msg])"
  by (simp add: rename_steps_def split: prod.splits call.splits)

lemma before_dispatch_run:
  "before_dispatch (trace (at_dispatch e cfg c h) @ c_Next # rest) = trace (at_dispatch e cfg c h)"
  by (simp add: before_dispatch_def at_dispatch_facts(11))

lemma from_dispatch_run:
  "from_dispatch (trace (at_dispatch e cfg c h) @ c_Next # rest) = c_Next # rest"
  by (simp add: from_dispatch_def at_dispatch_facts(11))

lemma Middleware_returned_frame:
  assumes d: "downstream e cfg c h = Inr s1"
    and a: "a < length (store s1)" "a \<noteq> array (responseMetricAttrs (frame_at_dispatch e cfg c h))"
  shows "backing (store (snd (Middleware e cfg c h))) a = backing (store s1) a"
proof -
  have sv: "serve e (at_dispatch e cfg c h) = Inr s1 \<or>
            serve e (at_dispatch e cfg c h) = Inl (undefined, s1)"
    using d by (simp add: downstream_def)
  have wf: "wf_slice (store s1) (responseMetricAttrs (frame_at_dispatch e cfg c h))"
    using at_dispatch_facts(9)[of e cfg c h] by (simp add: serve_facts(1)[OF sv])
  have M: "Middleware e cfg c h =
             after_Next e (resolve_SpanNameFormatter cfg) (frame_at_dispatch e cfg c h)
               [defer_span_End] s1"
    using d by (simp add: Middleware_unfold)
  show ?thesis unfolding M using after_Next_facts(4)[OF wf a] .
qed

lemma downstream_store:
  assumes "downstream e cfg c h = Inr s1"
  shows "store s1 = store (at_dispatch e cfg c h)"
proof -
  have "serve e (at_dispatch e cfg c h) = Inr s1 \<or>
        serve e (at_dispatch e cfg c h) = Inl (undefined, s1)"
    using assms by (simp add: downstream_def)
  then show ?thesis by (rule serve_facts(1))
qed

lemma at_dispatch_fiber:
  "fiber (at_dispatch e cfg c h) =
     (at_entry c)\<lparr>UserContext :=
        ContextWithSpan (Path c)
          (resolve_Propagators e cfg (WithCancel (UserContext c)) (VisitAll (Request_Header c) []))\<rparr>"
proof -
  obtain f ds s0 where b: "before_Next e (resolve_Propagators e cfg) c h = (f, ds, s0)"
    by (cases "before_Next e (resolve_Propagators e cfg) c h")
  have "at_dispatch e cfg c h = s0" using b by (simp add: at_dispatch_def)
  then show ?thesis using before_Next_facts(13)[OF b] before_Next_facts(2)[OF b] by simp
qed

lemma downstream_Next_nil:
  assumes "Next e (fiber (at_dispatch e cfg c h)) = (Returns None, c')"
  shows "\<exists>s1. downstream e cfg c h = Inr s1 \<and> fiber s1 = c'"
  using assms by (simp add: downstream_def serve_def Let_def)

lemma downstream_Next_error:
  assumes "Next e (fiber (at_dispatch e cfg c h)) = (Returns (Some err), c')"
    and "ErrorHandler e c' err = (Returns r, c'')"
  shows "\<exists>s1. downstream e cfg c h = Inr s1 \<and> fiber s1 = c''"
  using assms by (simp add: downstream_def serve_def Let_def)

lemma downstream_Next_panics:
  assumes "Next e (fiber (at_dispatch e cfg c h)) = (Panics p, c')"
  shows "\<exists>s1. downstream e cfg c h = Inl (p, s1) \<and> fiber s1 = c'"
  using assms by (simp add: downstream_def serve_def Let_def)

lemma Middleware_returned_trace:
  assumes "downstream e cfg c h = Inr s1"
  shows "trace (snd (Middleware e cfg c h)) =
           ActiveRequests_Add (WithCancel (UserContext c)) 1
              (attributesToMetricOptions (fst (httpServerMetricAttributesFromRequest e (at_entry c))))
           # tracer_Start
              (resolve_Propagators e cfg (WithCancel (UserContext c)) (VisitAll (Request_Header c) []))
              (Path c)
              [trace_WithAttributes (httpServerTraceAttributesFromRequest e (at_entry c)),
               WithSpanKind SpanKindServer]
           # c_Next # error_steps e (fiber (at_dispatch e cfg c h))
           @ span_SetAttributes
               (fst (HTTPAttributesFromHTTPStatusCode e (Response_StatusCode (fiber s1)))
                @ [KeyValue HTTPRouteKey (STRING (Route_Path (fiber s1))),
                   KeyValue HTTPResponseContentLengthKey
                     (INT64 (int (length (Response_Body (fiber s1)))))])
             # rename_steps e (resolve_SpanNameFormatter cfg) (fiber s1)
           @ [ActiveRequests_Add (WithCancel (UserContext c)) (- 1)
                (attributesToMetricOptions (fst (httpServerMetricAttributesFromRequest e (at_entry c)))),
              Duration_Record (WithCancel (UserContext c))
                (milliseconds (nanotime_Since e - nanotime_Now e))
                (attributesToRecordOptions (full_attributes e c (fiber s1))),
              RequestSize_Record (WithCancel (UserContext c))
                (int (length (Request_Body (fiber s1))))
                (attributesToRecordOptions (full_attributes e c (fiber s1))),
              ResponseSize_Record (WithCancel (UserContext c))
                (int (length (Response_Body (fiber s1))))
                (attributesToRecordOptions (full_attributes e c (fiber s1))),
              cancel (WithCancel (UserContext c)),
              span_End]"
  unfolding Middleware_returned(2)[OF assms]
  by (simp add: at_dispatch_facts(1,2,3,11) teardown_steps_def)

lemma Middleware_panicked_trace:
  assumes "downstream e cfg c h = Inl (p, s1)"
  shows "trace (snd (Middleware e cfg c h)) =
           ActiveRequests_Add (WithCancel (UserContext c)) 1
              (attributesToMetricOptions (fst (httpServerMetricAttributesFromRequest e (at_entry c))))
           # tracer_Start
              (resolve_Propagators e cfg (WithCancel (UserContext c)) (VisitAll (Request_Header c) []))
              (Path c)
              [trace_WithAttributes (httpServerTraceAttributesFromRequest e (at_entry c)),
               WithSpanKind SpanKindServer]
           # c_Next # error_steps e (fiber (at_dispatch e cfg c h)) @ [span_End]"
  unfolding Middleware_panicked(2)[OF assms]
  by (simp add: at_dispatch_facts(11))

lemma error_steps_Some:
  "Next e c = (Returns (Some err), c') \<Longrightarrow>
     error_steps e c = [span_RecordError err, App_ErrorHandler err]"
  by (simp add: error_steps_def)

lemma rename_steps_Returns:
  "fm c = (Returns name, c') \<Longrightarrow>
     rename_steps e fm c =
       [span_SetName name,
        span_SetStatus
          (fst (SpanStatusFromHTTPStatusCodeAndSpanKind e (Response_StatusCode c') SpanKindServer))
          (snd (SpanStatusFromHTTPStatusCodeAndSpanKind e (Response_StatusCode c') SpanKindServer))]"
  by (simp add: rename_steps_def)

lemma collect_run:
  assumes "downstream e cfg c h = Inr s1"
  shows "collect duration_record (trace (snd (Middleware e cfg c h))) =
           [(milliseconds (nanotime_Since e - nanotime_Now e),
             attributesToRecordOptions (full_attributes e c (fiber s1)))]"
    and "collect request_size_record (trace (snd (Middleware e cfg c h))) =
           [(int (length (Request_Body (fiber s1))),
             attributesToRecordOptions (full_attributes e c (fiber s1)))]"
    and "collect response_size_record (trace (snd (Middleware e cfg c h))) =
           [(int (length (Response_Body (fiber s1))),
             attributesToRecordOptions (full_attributes e c (fiber s1)))]"
    and "collect gauge_add (trace (snd (Middleware e cfg c h))) =
           [(1, attributesToMetricOptions
                  (fst (httpServerMetricAttributesFromRequest e (at_entry c)))),
            (- 1, attributesToMetricOptions
                  (fst (httpServerMetricAttributesFromRequest e (at_entry c))))]"
    and "collect gauge_add (from_dispatch (trace (snd (Middleware e cfg c h)))) =
           [(- 1, attributesToMetricOptions
                  (fst (httpServerMetricAttributesFromRequest e (at_entry c))))]"
proof -
  note cases = error_steps_cases[of e "fiber (at_dispatch e cfg c h)"]
    rename_steps_cases[of e "resolve_SpanNameFormatter cfg" "fiber s1"]
  show "collect duration_record (trace (snd (Middleware e cfg c h))) =
           [(milliseconds (nanotime_Since e - nanotime_Now e),
             attributesToRecordOptions (full_attributes e c (fiber s1)))]"
    unfolding Middleware_returned_trace[OF assms] using cases by (auto simp: collect_simps)
  show "collect request_size_record (trace (snd (Middleware e cfg c h))) =
           [(int (length (Request_Body (fiber s1))),
             attributesToRecordOptions (full_attributes e c (fiber s1)))]"
    unfolding Middleware_returned_trace[OF assms] using cases by (auto simp: collect_simps)
  show "collect response_size_record (trace (snd (Middleware e cfg c h))) =
           [(int (length (Response_Body (fiber s1))),
             attributesToRecordOptions (full_attributes e c (fiber s1)))]"
    unfolding Middleware_returned_trace[OF assms] using cases by (auto simp: collect_simps)
  show "collect gauge_add (trace (snd (Middleware e cfg c h))) =
           [(1, attributesToMetricOptions
                  (fst (httpServerMetricAttributesFromRequest e (at_entry c)))),
            (- 1, attributesToMetricOptions
                  (fst (httpServerMetricAttributesFromRequest e (at_entry c))))]"
    unfolding Middleware_returned_trace[OF assms] using cases by (auto simp: collect_simps)
  show "collect gauge_add (from_dispatch (trace (snd (Middleware e cfg c h)))) =
           [(- 1, attributesToMetricOptions
                  (fst (httpServerMetricAttributesFromRequest e (at_entry c))))]"
    unfolding Middleware_returned(2)[OF assms] from_dispatch_run
    using cases by (auto simp: collect_simps teardown_steps_def at_dispatch_facts(1,3))
qed

lemma gauge_after_downstream_panic:
  assumes "downstream e cfg c h = Inl (p, s1)"
  shows "collect gauge_add (trace (snd (Middleware e cfg c h))) =
           [(1, attributesToMetricOptions
                  (fst (httpServerMetricAttributesFromRequest e (at_entry c))))]"
  unfolding Middleware_panicked_trace[OF assms]
  using error_steps_cases[of e "fiber (at_dispatch e cfg c h)"]
  by (auto simp: collect_simps)

lemma before_dispatch_returned:
  assumes "downstream e cfg c h = Inr s1"
  shows "before_dispatch (trace (snd (Middleware e cfg c h))) = trace (at_dispatch e cfg c h)"
  unfolding Middleware_returned(2)[OF assms] by (rule before_dispatch_run)

text \<open>
  When the downstream work panics, no step of the teardown is in the trace; when it
  returns, all five are, also if the span-name formatter panics afterwards.
\<close>

lemma no_teardown_after_downstream_panic:
  assumes "downstream e cfg c h = Inl (p, s1)"
  shows "filter is_teardown_step (trace (snd (Middleware e cfg c h))) = []"
  unfolding Middleware_panicked_trace[OF assms]
  using error_steps_cases[of e "fiber (at_dispatch e cfg c h)"] by auto

lemma teardown_after_downstream_return:
  assumes "downstream e cfg c h = Inr s1"
  shows "length (filter is_teardown_step (trace (snd (Middleware e cfg c h)))) = 5"
  unfolding Middleware_returned_trace[OF assms]
  using error_steps_cases[of e "fiber (at_dispatch e cfg c h)"]
    rename_steps_cases[of e "resolve_SpanNameFormatter cfg" "fiber s1"]
  by auto

section \<open>The sample requests, run\<close>

lemmas sample_defs =
  sample_env_def sample_config_def sample_request_def not_found_env_def panic_env_def
  rewriting_env_def

lemma sample_downstream:
  "\<exists>s1. downstream sample_env sample_config sample_request [] = Inr s1
     \<and> fiber s1 =
         (fiber (at_dispatch sample_env sample_config sample_request []))
           \<lparr>Route_Path := ''/users/:id'', Response_StatusCode := 200,
             Response_Body := replicate 120 (CHR ''x'')\<rparr>"
  by (rule downstream_Next_nil) (simp add: sample_env_def)

lemma not_found_downstream:
  "\<exists>s1. downstream not_found_env sample_config sample_request [] = Inr s1
     \<and> fiber s1 =
         (fiber (at_dispatch not_found_env sample_config sample_request []))
           \<lparr>Route_Path := ''/users/:id'', Response_StatusCode := 404,
             Response_Body := ''no such user''\<rparr>"
  by (rule downstream_Next_error[where err = "''no such user''" and r = None])
    (simp_all add: not_found_env_def sample_env_def)

lemma server_error_downstream:
  "\<exists>s1. downstream server_error_env sample_config sample_request [] = Inr s1
     \<and> fiber s1 =
         (fiber (at_dispatch server_error_env sample_config sample_request []))
           \<lparr>Route_Path := ''/users/:id'', Response_StatusCode := 500,
             Response_Body := ''db down''\<rparr>"
  by (rule downstream_Next_error[where err = "''db down''" and r = None])
    (simp_all add: server_error_env_def sample_env_def)

lemma rewriting_downstream:
  "\<exists>s1. downstream rewriting_env sample_config sample_request [] = Inr s1
     \<and> fiber s1 =
         (fiber (at_dispatch rewriting_env sample_config sample_request []))
           \<lparr>Route_Path := ''/users/:id'', Request_Body := ''id=42&name=x''\<rparr>"
  by (rule downstream_Next_nil) (simp add: rewriting_env_def sample_env_def)

lemma panic_downstream:
  "\<exists>s1. downstream panic_env sample_config sample_request [] = Inl (''boom'', s1)
     \<and> fiber s1 =
         (fiber (at_dispatch panic_env sample_config sample_request []))
           \<lparr>Route_Path := ''/users/:id''\<rparr>"
  by (rule downstream_Next_panics) (simp add: panic_env_def sample_env_def)

lemma sample_fiber_at_dispatch:
  "e = sample_env \<or> e = not_found_env \<or> e = panic_env \<or> e = rewriting_env \<Longrightarrow>
   fiber (at_dispatch e sample_config sample_request []) =
     \<lparr>Path = ''/users/42'', Route_Path = ''/'',
      Request_Header = [(''Host'', ''example.com''), (''Accept'', ''*/*'')],
      Request_Body = ''{}'', Response_StatusCode = 200, Response_Body = [],
      UserContext = ContextWithSpan ''/users/42'' (WithCancel Background),
      Locals = [(tracerKey, instrumentationName)]\<rparr>"
  unfolding at_dispatch_fiber
  by (auto simp: sample_defs at_entry_def resolve_Propagators_def)

section \<open>The claims\<close>

text \<open>
  C1.  The claim: the teardown (the -1 on the active-request counter, the three histogram
  records, \<open>c.SetUserContext(savedCtx)\<close>, \<open>cancel()\<close>) runs on every exit path, also when
  \<open>c.Next()\<close> panics.  The code defers the teardown only at line 136, after \<open>c.Next()\<close>
  has returned; \<open>span.End()\<close> is deferred at line 114, before it.  For the sample request
  whose handler panics, the run below holds the +1, the span start, the dispatch and the
  span end, and nothing of the teardown; the panic goes on to the caller and the request
  object keeps the span's context.
\<close>

theorem teardown_skipped_when_Next_panics:
  "fst (Middleware panic_env sample_config sample_request []) = Panics ''boom''
   \<and> trace (snd (Middleware panic_env sample_config sample_request [])) =
       [ActiveRequests_Add (WithCancel Background) 1
          [WithAttributes [KeyValue ''http.method'' (STRING ''GET'')],
           WithAttributes [KeyValue ''http.scheme'' (STRING ''http'')]],
        tracer_Start (WithCancel Background) ''/users/42''
          [trace_WithAttributes
             [KeyValue ''http.method'' (STRING ''GET''),
              KeyValue ''http.target'' (STRING ''/users/42'')],
           WithSpanKind SpanKindServer],
        c_Next,
        span_End]
   \<and> UserContext (fiber (snd (Middleware panic_env sample_config sample_request []))) =
       ContextWithSpan ''/users/42'' (WithCancel Background)"
proof -
  obtain s1 where d: "downstream panic_env sample_config sample_request [] = Inl (''boom'', s1)"
    and f: "fiber s1 = (fiber (at_dispatch panic_env sample_config sample_request []))
           \<lparr>Route_Path := ''/users/:id''\<rparr>"
    using panic_downstream by blast
  have n: "error_steps panic_env (fiber (at_dispatch panic_env sample_config sample_request [])) = []"
    by (simp add: error_steps_def panic_env_def sample_env_def)
  have "fst (Middleware panic_env sample_config sample_request []) = Panics ''boom''"
    by (rule Middleware_panicked(1)[OF d])
  moreover have "trace (snd (Middleware panic_env sample_config sample_request [])) =
       [ActiveRequests_Add (WithCancel Background) 1
          [WithAttributes [KeyValue ''http.method'' (STRING ''GET'')],
           WithAttributes [KeyValue ''http.scheme'' (STRING ''http'')]],
        tracer_Start (WithCancel Background) ''/users/42''
          [trace_WithAttributes
             [KeyValue ''http.method'' (STRING ''GET''),
              KeyValue ''http.target'' (STRING ''/users/42'')],
           WithSpanKind SpanKindServer],
        c_Next,
        span_End]"
    unfolding Middleware_panicked_trace[OF d] n
    by (simp add: attributesToMetricOptions_map resolve_Propagators_def at_entry_def sample_defs)
  moreover have "UserContext (fiber (snd (Middleware panic_env sample_config sample_request []))) =
       ContextWithSpan ''/users/42'' (WithCancel Background)"
    unfolding Middleware_panicked(4)[OF d] f
    by (simp add: sample_fiber_at_dispatch)
  ultimately show ?thesis by simp
qed

text \<open>
  C2.  Whatever the downstream handler does (return, return an error, panic), and
  whatever the error handler and the span-name formatter do, the trace of a request holds
  exactly one span start and exactly one span end, the start first.
\<close>

theorem span_started_once_ended_once:
  "\<exists>ctx name opts.
     filter is_span_bracket (trace (snd (Middleware e cfg c h))) =
       [tracer_Start ctx name opts, span_End]"
proof (cases "downstream e cfg c h")
  case (Inl a)
  obtain p s1 where a: "a = (p, s1)" by (cases a)
  show ?thesis
    using error_steps_cases[of e "fiber (at_dispatch e cfg c h)"]
    by (auto simp: Middleware_panicked(2)[OF Inl[unfolded a]] at_dispatch_facts(11))
next
  case (Inr s1)
  show ?thesis
    using error_steps_cases[of e "fiber (at_dispatch e cfg c h)"]
      rename_steps_cases[of e "resolve_SpanNameFormatter cfg" "fiber s1"]
    by (auto simp: Middleware_returned(2)[OF Inr] at_dispatch_facts(11) teardown_steps_def)
qed

theorem span_started_once_ended_once_witness:
  "\<exists>ctx name opts.
     filter is_span_bracket (trace (snd (Middleware panic_env sample_config sample_request []))) =
       [tracer_Start ctx name opts, span_End]"
  using span_started_once_ended_once[of panic_env sample_config sample_request "[]"] by simp

text \<open>
  C3.  The claim: over the life of every request the up/down counter of active requests
  receives one +1 and one -1, so that its net change is 0.  The -1 is part of the teardown
  that is deferred at line 136, after \<open>c.Next()\<close> has returned.  For the sample request
  whose handler panics, the counter receives the +1 alone and the net change of the
  request is 1.
\<close>

theorem active_requests_leak_when_Next_panics:
  "collect gauge_add (trace (snd (Middleware panic_env sample_config sample_request []))) =
     [(1, [WithAttributes [KeyValue ''http.method'' (STRING ''GET'')],
           WithAttributes [KeyValue ''http.scheme'' (STRING ''http'')]])]
   \<and> sum_list (map fst (collect gauge_add
         (trace (snd (Middleware panic_env sample_config sample_request []))))) = 1"
proof -
  obtain s1 where d: "downstream panic_env sample_config sample_request [] = Inl (''boom'', s1)"
    using panic_downstream by blast
  have rq: "fst (httpServerMetricAttributesFromRequest panic_env (at_entry sample_request)) =
      [KeyValue ''http.method'' (STRING ''GET''), KeyValue ''http.scheme'' (STRING ''http'')]"
    by (simp add: panic_env_def sample_env_def)
  show ?thesis
    unfolding gauge_after_downstream_panic[OF d] rq
    by (simp add: attributesToMetricOptions_map)
qed

text \<open>
  When \<open>c.Next()\<close> and, after an error, the error handler have returned, the counter
  does receive exactly one +1, before \<open>c.Next()\<close> is dispatched, and exactly one -1,
  after it, and the deltas of the request sum to 0; this holds whether or not the handler
  returned an error, and also when the span-name formatter panics later.
\<close>

lemma active_requests_net_zero:
  assumes "downstream e cfg c h = Inr s1"
    and "tr = trace (snd (Middleware e cfg c h))"
  shows "map fst (collect gauge_add (before_dispatch tr)) = [1]
       \<and> map fst (collect gauge_add (from_dispatch tr)) = [- 1]
       \<and> map fst (collect gauge_add tr) = [1, - 1]
       \<and> sum_list (map fst (collect gauge_add tr)) = 0"
proof -
  have tr: "tr = trace (at_dispatch e cfg c h)
           @ c_Next # error_steps e (fiber (at_dispatch e cfg c h))
           @ span_SetAttributes
               (fst (HTTPAttributesFromHTTPStatusCode e (Response_StatusCode (fiber s1)))
                @ [KeyValue HTTPRouteKey (STRING (Route_Path (fiber s1))),
                   KeyValue HTTPResponseContentLengthKey
                     (INT64 (int (length (Response_Body (fiber s1)))))])
             # rename_steps e (resolve_SpanNameFormatter cfg) (fiber s1)
           @ teardown_steps e (frame_at_dispatch e cfg c h) (full_attributes e c (fiber s1))
               (int (length (Request_Body (fiber s1))))
               (int (length (Response_Body (fiber s1))))
           @ [span_End]"
    using assms(2) Middleware_returned(2)[OF assms(1)] by simp
  have b: "map fst (collect gauge_add (before_dispatch tr)) = [1]"
    unfolding tr before_dispatch_run by (simp add: at_dispatch_facts(11) collect_simps)
  have a: "map fst (collect gauge_add (from_dispatch tr)) = [- 1]"
    unfolding tr from_dispatch_run
    using error_steps_cases[of e "fiber (at_dispatch e cfg c h)"]
      rename_steps_cases[of e "resolve_SpanNameFormatter cfg" "fiber s1"]
    by (auto simp: collect_simps teardown_steps_def)
  have w: "map fst (collect gauge_add tr) = [1, - 1]"
    unfolding tr
    using error_steps_cases[of e "fiber (at_dispatch e cfg c h)"]
      rename_steps_cases[of e "resolve_SpanNameFormatter cfg" "fiber s1"]
    by (auto simp: collect_simps teardown_steps_def at_dispatch_facts(11))
  show ?thesis using a b w by simp
qed

text \<open>
  C4.  When the downstream work and the formatter have returned, the span gets exactly
  one status, computed for a server span from the status code that the request object
  holds at line 158: after \<open>c.Next()\<close>, after the error handler and after the formatter
  (the default formatter leaves the request object as it is).  Under the status rule of
  the spec, a code in 100--499 gives unset and a code in 500--599 gives error.  When
  \<open>c.Next()\<close> returned an error, the error is recorded on the span first, then the
  application's error handler runs and its result is the request object read, and only
  then the status is set; so an error rendered as 404 leaves the status unset.
\<close>

theorem span_status_from_rendered_code:
  assumes "downstream e cfg c h = Inr s1"
    and "resolve_SpanNameFormatter cfg (fiber s1) = (Returns name, c')"
    and "SpanStatusFromHTTPStatusCodeAndSpanKind e = spec_SpanStatusFromHTTPStatusCodeAndSpanKind"
    and "tr = trace (snd (Middleware e cfg c h))"
  shows "collect span_status tr =
           [spec_SpanStatusFromHTTPStatusCodeAndSpanKind (Response_StatusCode c') SpanKindServer]
       \<and> (100 \<le> Response_StatusCode c' \<and> Response_StatusCode c' \<le> 499
            \<longrightarrow> map fst (collect span_status tr) = [Unset])
       \<and> (500 \<le> Response_StatusCode c' \<and> Response_StatusCode c' \<le> 599
            \<longrightarrow> map fst (collect span_status tr) = [Error])
       \<and> (SpanNameFormatter cfg = None \<longrightarrow> c' = fiber s1)
       \<and> (\<forall>err cn. Next e (fiber (at_dispatch e cfg c h)) = (Returns (Some err), cn)
            \<longrightarrow> fiber s1 = snd (ErrorHandler e cn err)
              \<and> filter is_error_step tr =
                  [span_RecordError err, App_ErrorHandler err,
                   span_SetStatus
                     (fst (spec_SpanStatusFromHTTPStatusCodeAndSpanKind (Response_StatusCode c') SpanKindServer))
                     (snd (spec_SpanStatusFromHTTPStatusCodeAndSpanKind (Response_StatusCode c') SpanKindServer))])
       \<and> (\<forall>cn. Next e (fiber (at_dispatch e cfg c h)) = (Returns None, cn)
            \<longrightarrow> fiber s1 = cn)"
proof -
  note tr = assms(4)[unfolded Middleware_returned_trace[OF assms(1)]
      rename_steps_Returns[where fm = "resolve_SpanNameFormatter cfg" and c = "fiber s1", OF assms(2)] assms(3)]
  have st: "collect span_status tr =
           [spec_SpanStatusFromHTTPStatusCodeAndSpanKind (Response_StatusCode c') SpanKindServer]"
    unfolding tr using error_steps_cases[of e "fiber (at_dispatch e cfg c h)"]
    by (auto simp: collect_simps)
  have lo: "map fst (collect span_status tr) = [Unset]"
    if "100 \<le> Response_StatusCode c' \<and> Response_StatusCode c' \<le> 499"
    using that by (simp add: st spec_SpanStatusFromHTTPStatusCodeAndSpanKind_def)
  have hi: "map fst (collect span_status tr) = [Error]"
    if "500 \<le> Response_StatusCode c' \<and> Response_StatusCode c' \<le> 599"
    using that by (simp add: st spec_SpanStatusFromHTTPStatusCodeAndSpanKind_def)
  have df: "c' = fiber s1" if "SpanNameFormatter cfg = None"
    using that assms(2) by (simp add: resolve_SpanNameFormatter_def defaultSpanNameFormatter_def)
  have sv: "serve e (at_dispatch e cfg c h) = Inr s1"
    using assms(1) by (simp add: downstream_def)
  have er: "fiber s1 = snd (ErrorHandler e cn err)
              \<and> filter is_error_step tr =
                  [span_RecordError err, App_ErrorHandler err,
                   span_SetStatus
                     (fst (spec_SpanStatusFromHTTPStatusCodeAndSpanKind (Response_StatusCode c') SpanKindServer))
                     (snd (spec_SpanStatusFromHTTPStatusCodeAndSpanKind (Response_StatusCode c') SpanKindServer))]"
    if n: "Next e (fiber (at_dispatch e cfg c h)) = (Returns (Some err), cn)" for err cn
  proof
    show "fiber s1 = snd (ErrorHandler e cn err)"
      using serve_returns_fiber[OF sv] n by simp
    show "filter is_error_step tr =
                  [span_RecordError err, App_ErrorHandler err,
                   span_SetStatus
                     (fst (spec_SpanStatusFromHTTPStatusCodeAndSpanKind (Response_StatusCode c') SpanKindServer))
                     (snd (spec_SpanStatusFromHTTPStatusCodeAndSpanKind (Response_StatusCode c') SpanKindServer))]"
      unfolding tr error_steps_Some[OF n] by simp
  qed
  have ok: "fiber s1 = cn" if n: "Next e (fiber (at_dispatch e cfg c h)) = (Returns None, cn)" for cn
    using serve_returns_fiber[OF sv] n by simp
  show ?thesis using st lo hi df er ok by blast
qed

theorem span_status_from_rendered_code_witness:
  "(\<exists>s1 cn.
     downstream not_found_env sample_config sample_request [] = Inr s1
     \<and> resolve_SpanNameFormatter sample_config (fiber s1) = (Returns ''/users/:id'', fiber s1)
     \<and> SpanStatusFromHTTPStatusCodeAndSpanKind not_found_env =
         spec_SpanStatusFromHTTPStatusCodeAndSpanKind
     \<and> SpanNameFormatter sample_config = None
     \<and> Next not_found_env (fiber (at_dispatch not_found_env sample_config sample_request [])) =
         (Returns (Some ''no such user''), cn)
     \<and> fiber s1 = snd (ErrorHandler not_found_env cn ''no such user'')
     \<and> Response_StatusCode (fiber s1) = 404
     \<and> map fst (collect span_status
          (trace (snd (Middleware not_found_env sample_config sample_request [])))) = [Unset]
     \<and> filter is_error_step
          (trace (snd (Middleware not_found_env sample_config sample_request []))) =
         [span_RecordError ''no such user'', App_ErrorHandler ''no such user'',
          span_SetStatus Unset []])
   \<and> (\<exists>s1.
     downstream server_error_env sample_config sample_request [] = Inr s1
     \<and> resolve_SpanNameFormatter sample_config (fiber s1) = (Returns ''/users/:id'', fiber s1)
     \<and> SpanStatusFromHTTPStatusCodeAndSpanKind server_error_env =
         spec_SpanStatusFromHTTPStatusCodeAndSpanKind
     \<and> Response_StatusCode (fiber s1) = 500
     \<and> map fst (collect span_status
          (trace (snd (Middleware server_error_env sample_config sample_request [])))) = [Error])
   \<and> (\<exists>s1 cn.
     downstream sample_env sample_config sample_request [] = Inr s1
     \<and> resolve_SpanNameFormatter sample_config (fiber s1) = (Returns ''/users/:id'', fiber s1)
     \<and> SpanStatusFromHTTPStatusCodeAndSpanKind sample_env =
         spec_SpanStatusFromHTTPStatusCodeAndSpanKind
     \<and> Next sample_env (fiber (at_dispatch sample_env sample_config sample_request [])) =
         (Returns None, cn)
     \<and> fiber s1 = cn
     \<and> Response_StatusCode (fiber s1) = 200
     \<and> map fst (collect span_status
          (trace (snd (Middleware sample_env sample_config sample_request [])))) = [Unset])"
proof (intro conjI)
  obtain s1 where d: "downstream not_found_env sample_config sample_request [] = Inr s1"
    and f: "fiber s1 = (fiber (at_dispatch not_found_env sample_config sample_request []))
           \<lparr>Route_Path := ''/users/:id'', Response_StatusCode := 404,
             Response_Body := ''no such user''\<rparr>"
    using not_found_downstream by blast
  obtain cn where n: "Next not_found_env (fiber (at_dispatch not_found_env sample_config sample_request [])) =
           (Returns (Some ''no such user''), cn)"
    by (simp add: not_found_env_def sample_env_def)
  have r: "resolve_SpanNameFormatter sample_config (fiber s1) = (Returns ''/users/:id'', fiber s1)"
    by (simp add: f resolve_SpanNameFormatter_def sample_config_def defaultSpanNameFormatter_def)
  have m: "SpanStatusFromHTTPStatusCodeAndSpanKind not_found_env =
         spec_SpanStatusFromHTTPStatusCodeAndSpanKind"
    by (simp add: not_found_env_def sample_env_def)
  have dflt: "SpanNameFormatter sample_config = None" by (simp add: sample_config_def)
  have code: "Response_StatusCode (fiber s1) = 404" by (simp add: f)
  have u: "spec_SpanStatusFromHTTPStatusCodeAndSpanKind 404 SpanKindServer = (Unset, [])"
    by (simp add: spec_SpanStatusFromHTTPStatusCodeAndSpanKind_def)
  show "\<exists>s1 cn.
     downstream not_found_env sample_config sample_request [] = Inr s1
     \<and> resolve_SpanNameFormatter sample_config (fiber s1) = (Returns ''/users/:id'', fiber s1)
     \<and> SpanStatusFromHTTPStatusCodeAndSpanKind not_found_env =
         spec_SpanStatusFromHTTPStatusCodeAndSpanKind
     \<and> SpanNameFormatter sample_config = None
     \<and> Next not_found_env (fiber (at_dispatch not_found_env sample_config sample_request [])) =
         (Returns (Some ''no such user''), cn)
     \<and> fiber s1 = snd (ErrorHandler not_found_env cn ''no such user'')
     \<and> Response_StatusCode (fiber s1) = 404
     \<and> map fst (collect span_status
          (trace (snd (Middleware not_found_env sample_config sample_request [])))) = [Unset]
     \<and> filter is_error_step
          (trace (snd (Middleware not_found_env sample_config sample_request []))) =
         [span_RecordError ''no such user'', App_ErrorHandler ''no such user'',
          span_SetStatus Unset []]"
    using d r m n dflt code u span_status_from_rendered_code[OF d r m refl]
    by (intro exI[of _ s1] exI[of _ cn]) simp
next
  obtain s1 where d: "downstream server_error_env sample_config sample_request [] = Inr s1"
    and f: "fiber s1 = (fiber (at_dispatch server_error_env sample_config sample_request []))
           \<lparr>Route_Path := ''/users/:id'', Response_StatusCode := 500,
             Response_Body := ''db down''\<rparr>"
    using server_error_downstream by blast
  have r: "resolve_SpanNameFormatter sample_config (fiber s1) = (Returns ''/users/:id'', fiber s1)"
    by (simp add: f resolve_SpanNameFormatter_def sample_config_def defaultSpanNameFormatter_def)
  have m: "SpanStatusFromHTTPStatusCodeAndSpanKind server_error_env =
         spec_SpanStatusFromHTTPStatusCodeAndSpanKind"
    by (simp add: server_error_env_def sample_env_def)
  have code: "Response_StatusCode (fiber s1) = 500" by (simp add: f)
  have u: "spec_SpanStatusFromHTTPStatusCodeAndSpanKind 500 SpanKindServer = (Error, [])"
    by (simp add: spec_SpanStatusFromHTTPStatusCodeAndSpanKind_def)
  show "\<exists>s1.
     downstream server_error_env sample_config sample_request [] = Inr s1
     \<and> resolve_SpanNameFormatter sample_config (fiber s1) = (Returns ''/users/:id'', fiber s1)
     \<and> SpanStatusFromHTTPStatusCodeAndSpanKind server_error_env =
         spec_SpanStatusFromHTTPStatusCodeAndSpanKind
     \<and> Response_StatusCode (fiber s1) = 500
     \<and> map fst (collect span_status
          (trace (snd (Middleware server_error_env sample_config sample_request [])))) = [Error]"
    using d r m code u span_status_from_rendered_code[OF d r m refl]
    by (intro exI[of _ s1]) simp
next
  obtain s1 where d: "downstream sample_env sample_config sample_request [] = Inr s1"
    and f: "fiber s1 = (fiber (at_dispatch sample_env sample_config sample_request []))
           \<lparr>Route_Path := ''/users/:id'', Response_StatusCode := 200,
             Response_Body := replicate 120 (CHR ''x'')\<rparr>"
    using sample_downstream by blast
  obtain cn where n: "Next sample_env (fiber (at_dispatch sample_env sample_config sample_request [])) =
           (Returns None, cn)"
    by (simp add: sample_env_def)
  have r: "resolve_SpanNameFormatter sample_config (fiber s1) = (Returns ''/users/:id'', fiber s1)"
    by (simp add: f resolve_SpanNameFormatter_def sample_config_def defaultSpanNameFormatter_def)
  have m: "SpanStatusFromHTTPStatusCodeAndSpanKind sample_env =
         spec_SpanStatusFromHTTPStatusCodeAndSpanKind"
    by (simp add: sample_env_def)
  have code: "Response_StatusCode (fiber s1) = 200" by (simp add: f)
  have u: "spec_SpanStatusFromHTTPStatusCodeAndSpanKind 200 SpanKindServer = (Unset, [])"
    by (simp add: spec_SpanStatusFromHTTPStatusCodeAndSpanKind_def)
  show "\<exists>s1 cn.
     downstream sample_env sample_config sample_request [] = Inr s1
     \<and> resolve_SpanNameFormatter sample_config (fiber s1) = (Returns ''/users/:id'', fiber s1)
     \<and> SpanStatusFromHTTPStatusCodeAndSpanKind sample_env =
         spec_SpanStatusFromHTTPStatusCodeAndSpanKind
     \<and> Next sample_env (fiber (at_dispatch sample_env sample_config sample_request [])) =
         (Returns None, cn)
     \<and> fiber s1 = cn
     \<and> Response_StatusCode (fiber s1) = 200
     \<and> map fst (collect span_status
          (trace (snd (Middleware sample_env sample_config sample_request [])))) = [Unset]"
    using d r m n code u span_status_from_rendered_code[OF d r m refl]
    by (intro exI[of _ s1] exI[of _ cn]) simp
qed

text \<open>
  C5.  With the default span-name formatter, the span is started under the raw request
  path, before \<open>c.Next()\<close> is dispatched and with no renaming before the dispatch; once
  the downstream work has returned, the span is renamed, once, to the route path that the
  request object then holds.
\<close>

theorem span_named_path_then_route:
  assumes "SpanNameFormatter cfg = None"
    and "tr = trace (snd (Middleware e cfg c h))"
  shows "collect span_start_name tr = [Path c]
       \<and> collect span_start_name (before_dispatch tr) = [Path c]
       \<and> collect span_rename (before_dispatch tr) = []
       \<and> (\<forall>s1. downstream e cfg c h = Inr s1
            \<longrightarrow> collect span_rename tr = [Route_Path (fiber s1)])"
proof -
  have fm: "resolve_SpanNameFormatter cfg c1 = (Returns (Route_Path c1), c1)" for c1
    using assms(1) by (simp add: resolve_SpanNameFormatter_def defaultSpanNameFormatter_def)
  have bd: "before_dispatch tr = trace (at_dispatch e cfg c h)"
  proof (cases "downstream e cfg c h")
    case (Inl a)
    obtain p s1 where a: "a = (p, s1)" by (cases a)
    show ?thesis
      unfolding assms(2) Middleware_panicked(2)[OF Inl[unfolded a]] by (rule before_dispatch_run)
  next
    case (Inr s1)
    show ?thesis
      unfolding assms(2) Middleware_returned(2)[OF Inr] by (rule before_dispatch_run)
  qed
  have all: "collect span_start_name tr = [Path c]"
  proof (cases "downstream e cfg c h")
    case (Inl a)
    obtain p s1 where a: "a = (p, s1)" by (cases a)
    show ?thesis
      unfolding assms(2) Middleware_panicked_trace[OF Inl[unfolded a]]
      using error_steps_cases[of e "fiber (at_dispatch e cfg c h)"]
      by (auto simp: collect_simps)
  next
    case (Inr s1)
    show ?thesis
      unfolding assms(2) Middleware_returned_trace[OF Inr] rename_steps_Returns[where fm = "resolve_SpanNameFormatter cfg" and c = "fiber s1", OF fm]
      using error_steps_cases[of e "fiber (at_dispatch e cfg c h)"]
      by (auto simp: collect_simps)
  qed
  have rn: "collect span_rename tr = [Route_Path (fiber s1)]"
    if d: "downstream e cfg c h = Inr s1" for s1
    unfolding assms(2) Middleware_returned_trace[OF d] rename_steps_Returns[where fm = "resolve_SpanNameFormatter cfg" and c = "fiber s1", OF fm]
    using error_steps_cases[of e "fiber (at_dispatch e cfg c h)"]
    by (auto simp: collect_simps)
  show ?thesis
    using all rn by (simp add: bd at_dispatch_facts(11) collect_simps)
qed

theorem span_named_path_then_route_witness:
  "SpanNameFormatter sample_config = None
   \<and> (\<exists>s1. downstream sample_env sample_config sample_request [] = Inr s1
         \<and> Route_Path (fiber s1) = ''/users/:id'')
   \<and> collect span_start_name
        (trace (snd (Middleware sample_env sample_config sample_request []))) = [''/users/42'']
   \<and> collect span_rename
        (trace (snd (Middleware sample_env sample_config sample_request []))) = [''/users/:id'']"
proof -
  obtain s1 where d: "downstream sample_env sample_config sample_request [] = Inr s1"
    and f: "fiber s1 = (fiber (at_dispatch sample_env sample_config sample_request []))
           \<lparr>Route_Path := ''/users/:id'', Response_StatusCode := 200,
             Response_Body := replicate 120 (CHR ''x'')\<rparr>"
    using sample_downstream by blast
  have n: "SpanNameFormatter sample_config = None" by (simp add: sample_config_def)
  have p: "Path sample_request = ''/users/42''" by (simp add: sample_request_def)
  have r: "Route_Path (fiber s1) = ''/users/:id''" by (simp add: f)
  show ?thesis
    using d n p r span_named_path_then_route[OF n refl, of sample_env sample_request "[]"]
    by auto
qed

text \<open>
  C7, as amended.  When the downstream work has returned, the three histogram records of
  the teardown carry the options of the full attribute list: the request-phase
  attributes, then the status code attributes, then the route.  The -1 on the
  active-request counter carries the options of the request-phase attributes alone.
\<close>

theorem teardown_metrics_attributes:
  assumes "downstream e cfg c h = Inr s1"
    and "tr = trace (snd (Middleware e cfg c h))"
  shows "map snd (collect duration_record tr) =
           [attributesToRecordOptions (full_attributes e c (fiber s1))]
       \<and> map snd (collect request_size_record tr) =
           [attributesToRecordOptions (full_attributes e c (fiber s1))]
       \<and> map snd (collect response_size_record tr) =
           [attributesToRecordOptions (full_attributes e c (fiber s1))]
       \<and> map snd (collect gauge_add (from_dispatch tr)) =
           [attributesToMetricOptions (fst (httpServerMetricAttributesFromRequest e (at_entry c)))]
       \<and> attributesToRecordOptions (full_attributes e c (fiber s1)) =
           attributesToMetricOptions (fst (httpServerMetricAttributesFromRequest e (at_entry c)))
           @ attributesToRecordOptions
               (fst (HTTPAttributesFromHTTPStatusCode e (Response_StatusCode (fiber s1)))
                @ [KeyValue HTTPRouteKey (STRING (Route_Path (fiber s1)))])"
  by (simp add: assms(2) collect_run[OF assms(1)] full_attributes_def
      attributesToMetricOptions_map attributesToRecordOptions_map)

theorem teardown_metrics_attributes_witness:
  "(\<exists>s1. downstream sample_env sample_config sample_request [] = Inr s1
      \<and> map snd (collect request_size_record
           (trace (snd (Middleware sample_env sample_config sample_request [])))) =
          [attributesToRecordOptions (full_attributes sample_env sample_request (fiber s1))]
      \<and> full_attributes sample_env sample_request (fiber s1) =
          [KeyValue ''http.method'' (STRING ''GET''), KeyValue ''http.scheme'' (STRING ''http''),
           KeyValue ''http.status_code'' (INT64 200), KeyValue ''http.route'' (STRING ''/users/:id'')])
   \<and> map snd (collect gauge_add (from_dispatch
        (trace (snd (Middleware sample_env sample_config sample_request []))))) =
       [attributesToMetricOptions
          [KeyValue ''http.method'' (STRING ''GET''), KeyValue ''http.scheme'' (STRING ''http'')]]"
proof -
  obtain s1 where d: "downstream sample_env sample_config sample_request [] = Inr s1"
    and f: "fiber s1 = (fiber (at_dispatch sample_env sample_config sample_request []))
           \<lparr>Route_Path := ''/users/:id'', Response_StatusCode := 200,
             Response_Body := replicate 120 (CHR ''x'')\<rparr>"
    using sample_downstream by blast
  have fa: "full_attributes sample_env sample_request (fiber s1) =
          [KeyValue ''http.method'' (STRING ''GET''), KeyValue ''http.scheme'' (STRING ''http''),
           KeyValue ''http.status_code'' (INT64 200), KeyValue ''http.route'' (STRING ''/users/:id'')]"
    by (simp add: f full_attributes_def sample_env_def HTTPRouteKey_def)
  have rq: "fst (httpServerMetricAttributesFromRequest sample_env (at_entry sample_request)) =
      [KeyValue ''http.method'' (STRING ''GET''), KeyValue ''http.scheme'' (STRING ''http'')]"
    by (simp add: sample_env_def)
  show ?thesis
    using d fa rq teardown_metrics_attributes[OF d refl]
    by (intro conjI exI[of _ s1]) simp_all
qed

text \<open>
  The claim as stated tags all four operations with the full list.  For the sample
  request the -1 carries two options and the duration record four.
\<close>

theorem gauge_decrement_not_fully_tagged:
  "map snd (collect gauge_add (from_dispatch
     (trace (snd (Middleware sample_env sample_config sample_request []))))) =
     [[WithAttributes [KeyValue ''http.method'' (STRING ''GET'')],
       WithAttributes [KeyValue ''http.scheme'' (STRING ''http'')]]]
   \<and> map snd (collect duration_record
     (trace (snd (Middleware sample_env sample_config sample_request [])))) =
     [[WithAttributes [KeyValue ''http.method'' (STRING ''GET'')],
       WithAttributes [KeyValue ''http.scheme'' (STRING ''http'')],
       WithAttributes [KeyValue ''http.status_code'' (INT64 200)],
       WithAttributes [KeyValue ''http.route'' (STRING ''/users/:id'')]]]"
proof -
  obtain s1 where d: "downstream sample_env sample_config sample_request [] = Inr s1"
    and f: "fiber s1 = (fiber (at_dispatch sample_env sample_config sample_request []))
           \<lparr>Route_Path := ''/users/:id'', Response_StatusCode := 200,
             Response_Body := replicate 120 (CHR ''x'')\<rparr>"
    using sample_downstream by blast
  show ?thesis
    unfolding collect_run(1,5)[OF d]
    by (simp add: f full_attributes_def attributesToMetricOptions_map
        attributesToRecordOptions_map sample_env_def HTTPRouteKey_def)
qed

text \<open>
  C8, as amended.  When the downstream work has returned, the one value recorded into
  the request-size histogram is the length of the request body that the request object
  holds after \<open>c.Next()\<close> and the error handler (line 133); the record is made after the
  dispatch.  It is the length of the body on entry whenever the downstream work left the
  body as it was.
\<close>

theorem request_size_recorded:
  assumes "downstream e cfg c h = Inr s1"
    and "tr = trace (snd (Middleware e cfg c h))"
  shows "map fst (collect request_size_record tr) = [int (length (Request_Body (fiber s1)))]
       \<and> collect request_size_record (before_dispatch tr) = []
       \<and> Request_Body (fiber (at_dispatch e cfg c h)) = Request_Body c
       \<and> (Request_Body (fiber s1) = Request_Body c
            \<longrightarrow> map fst (collect request_size_record tr) = [int (length (Request_Body c))])"
proof -
  have r: "map fst (collect request_size_record tr) = [int (length (Request_Body (fiber s1)))]"
    by (simp add: assms(2) collect_run(2)[OF assms(1)])
  have b: "collect request_size_record (before_dispatch tr) = []"
    unfolding assms(2) before_dispatch_returned[OF assms(1)]
    by (simp add: at_dispatch_facts(11) collect_simps)
  show ?thesis using r b by (simp add: at_dispatch_facts(12))
qed

theorem request_size_recorded_witness:
  "(\<exists>s1. downstream sample_env sample_config sample_request [] = Inr s1
      \<and> Request_Body (fiber s1) = Request_Body sample_request)
   \<and> map fst (collect request_size_record
        (trace (snd (Middleware sample_env sample_config sample_request [])))) = [2]"
proof -
  obtain s1 where d: "downstream sample_env sample_config sample_request [] = Inr s1"
    and f: "fiber s1 = (fiber (at_dispatch sample_env sample_config sample_request []))
           \<lparr>Route_Path := ''/users/:id'', Response_StatusCode := 200,
             Response_Body := replicate 120 (CHR ''x'')\<rparr>"
    using sample_downstream by blast
  have same: "Request_Body (fiber s1) = Request_Body sample_request"
    by (simp add: f at_dispatch_facts(12))
  have two: "int (length (Request_Body sample_request)) = 2" by (simp add: sample_request_def)
  show ?thesis
    using d same two request_size_recorded[OF d refl]
    by (intro conjI exI[of _ s1]) simp_all
qed

text \<open>
  The claim as stated takes the length measured before the dispatch.  For the sample
  request whose handler replaces the body, the body at the dispatch has 2 bytes and the
  value recorded is 12.
\<close>

theorem request_size_measured_after_handler:
  "Request_Body (fiber (at_dispatch rewriting_env sample_config sample_request [])) = ''{}''
   \<and> map fst (collect request_size_record
        (trace (snd (Middleware rewriting_env sample_config sample_request [])))) = [12]"
proof -
  obtain s1 where d: "downstream rewriting_env sample_config sample_request [] = Inr s1"
    and f: "fiber s1 = (fiber (at_dispatch rewriting_env sample_config sample_request []))
           \<lparr>Route_Path := ''/users/:id'', Request_Body := ''id=42&name=x''\<rparr>"
    using rewriting_downstream by blast
  show ?thesis
    unfolding collect_run(2)[OF d] by (simp add: f sample_fiber_at_dispatch)
qed

text \<open>
  C9.  The handler never returns an error: its result is nil or a panic.  It is nil
  whenever the downstream work and the formatter have returned; in particular when
  \<open>c.Next()\<close> returned an error, which is recorded on the span and passed to the error
  handler, after the dispatch.
\<close>

theorem handler_returns_nil:
  "(\<forall>err. fst (Middleware e cfg c h) \<noteq> Returns (Some err))
   \<and> (\<forall>s1 name c'.
        downstream e cfg c h = Inr s1 \<and> resolve_SpanNameFormatter cfg (fiber s1) = (Returns name, c')
        \<longrightarrow> fst (Middleware e cfg c h) = Returns None)
   \<and> (\<forall>s1 err cn.
        downstream e cfg c h = Inr s1
        \<and> Next e (fiber (at_dispatch e cfg c h)) = (Returns (Some err), cn)
        \<longrightarrow> filter is_error_step (before_dispatch (trace (snd (Middleware e cfg c h)))) = []
          \<and> take 2 (filter is_error_step (trace (snd (Middleware e cfg c h)))) =
              [span_RecordError err, App_ErrorHandler err])"
proof (intro conjI allI impI)
  fix err
  show "fst (Middleware e cfg c h) \<noteq> Returns (Some err)"
  proof (cases "downstream e cfg c h")
    case (Inl a)
    obtain p s1 where a: "a = (p, s1)" by (cases a)
    show ?thesis by (simp add: Middleware_panicked(1)[OF Inl[unfolded a]])
  next
    case (Inr s1)
    show ?thesis by (simp add: Middleware_returned(1)[OF Inr] split: call.splits)
  qed
next
  fix s1 name c'
  assume "downstream e cfg c h = Inr s1 \<and> resolve_SpanNameFormatter cfg (fiber s1) = (Returns name, c')"
  then show "fst (Middleware e cfg c h) = Returns None"
    by (simp add: Middleware_returned(1))
next
  fix s1 err cn
  assume a: "downstream e cfg c h = Inr s1
        \<and> Next e (fiber (at_dispatch e cfg c h)) = (Returns (Some err), cn)"
  then have d: "downstream e cfg c h = Inr s1"
    and n: "Next e (fiber (at_dispatch e cfg c h)) = (Returns (Some err), cn)" by simp_all
  show "filter is_error_step (before_dispatch (trace (snd (Middleware e cfg c h)))) = []"
    unfolding Middleware_returned(2)[OF d] before_dispatch_run
    by (simp add: at_dispatch_facts(11))
  show "take 2 (filter is_error_step (trace (snd (Middleware e cfg c h)))) =
              [span_RecordError err, App_ErrorHandler err]"
    unfolding Middleware_returned_trace[OF d] error_steps_Some[OF n]
    by simp
qed

theorem handler_returns_nil_witness:
  "(\<exists>s1 cn. downstream not_found_env sample_config sample_request [] = Inr s1
       \<and> Next not_found_env (fiber (at_dispatch not_found_env sample_config sample_request [])) =
           (Returns (Some ''no such user''), cn)
       \<and> resolve_SpanNameFormatter sample_config (fiber s1) = (Returns ''/users/:id'', fiber s1))
   \<and> fst (Middleware not_found_env sample_config sample_request []) = Returns None
   \<and> take 2 (filter is_error_step
        (trace (snd (Middleware not_found_env sample_config sample_request [])))) =
       [span_RecordError ''no such user'', App_ErrorHandler ''no such user'']"
proof -
  obtain s1 where d: "downstream not_found_env sample_config sample_request [] = Inr s1"
    and f: "fiber s1 = (fiber (at_dispatch not_found_env sample_config sample_request []))
           \<lparr>Route_Path := ''/users/:id'', Response_StatusCode := 404,
             Response_Body := ''no such user''\<rparr>"
    using not_found_downstream by blast
  obtain cn where n: "Next not_found_env (fiber (at_dispatch not_found_env sample_config sample_request [])) =
           (Returns (Some ''no such user''), cn)"
    by (simp add: not_found_env_def sample_env_def)
  have r: "resolve_SpanNameFormatter sample_config (fiber s1) = (Returns ''/users/:id'', fiber s1)"
    by (simp add: f resolve_SpanNameFormatter_def sample_config_def defaultSpanNameFormatter_def)
  show ?thesis
    using d n r handler_returns_nil[of not_found_env sample_config sample_request "[]"]
    by blast
qed

text \<open>
  C10.  \<open>responseMetricAttrs\<close> has an array of its own.  From the return of the
  downstream work to the end of the run, which covers the \<open>append\<close> of the teardown, no
  array that existed changes but that one: the request-phase attributes read the same
  before the teardown and after it, and the -1 of the active-request counter carries the
  very option list of the +1.
\<close>

theorem request_attributes_untouched:
  assumes "downstream e cfg c h = Inr s1"
    and "f = frame_at_dispatch e cfg c h"
    and "s' = snd (Middleware e cfg c h)"
  shows "array (responseMetricAttrs f) \<noteq> array (requestMetricsAttrs f)
       \<and> (\<forall>a. a < length (store s1) \<and> a \<noteq> array (responseMetricAttrs f)
              \<longrightarrow> backing (store s') a = backing (store s1) a)
       \<and> elems (store s1) (requestMetricsAttrs f) =
           fst (httpServerMetricAttributesFromRequest e (at_entry c))
       \<and> elems (store s') (requestMetricsAttrs f) =
           fst (httpServerMetricAttributesFromRequest e (at_entry c))
       \<and> requestMetric f =
           attributesToMetricOptions (fst (httpServerMetricAttributesFromRequest e (at_entry c)))
       \<and> collect gauge_add (trace s') = [(1, requestMetric f), (- 1, requestMetric f)]"
proof -
  note af = at_dispatch_facts[of e cfg c h]
  note st = downstream_store[OF assms(1)]
  have ne: "array (responseMetricAttrs f) \<noteq> array (requestMetricsAttrs f)"
    by (simp add: assms(2) af(4,5))
  have fr: "backing (store s') a = backing (store s1) a"
    if "a < length (store s1) \<and> a \<noteq> array (responseMetricAttrs f)" for a
    using that Middleware_returned_frame[OF assms(1), of a] by (simp add: assms(2,3))
  have e1: "elems (store s1) (requestMetricsAttrs f) =
           fst (httpServerMetricAttributesFromRequest e (at_entry c))"
    by (simp add: st assms(2) af(7))
  have lt: "array (requestMetricsAttrs f) < length (store s1)"
    by (simp add: st assms(2) af(4,6))
  have "backing (store s') (array (requestMetricsAttrs f)) =
        backing (store s1) (array (requestMetricsAttrs f))"
    using fr[of "array (requestMetricsAttrs f)"] lt ne by simp
  then have e2: "elems (store s') (requestMetricsAttrs f) =
           fst (httpServerMetricAttributesFromRequest e (at_entry c))"
    using e1 by (simp add: elems_def)
  have rm: "requestMetric f =
           attributesToMetricOptions (fst (httpServerMetricAttributesFromRequest e (at_entry c)))"
    by (simp add: assms(2) af(3))
  have g: "collect gauge_add (trace s') = [(1, requestMetric f), (- 1, requestMetric f)]"
    by (simp add: assms(3) collect_run(4)[OF assms(1)] rm)
  show ?thesis using ne fr e1 e2 rm g by blast
qed

theorem request_attributes_untouched_witness:
  "\<exists>s1. downstream sample_env sample_config sample_request [] = Inr s1
     \<and> array (responseMetricAttrs (frame_at_dispatch sample_env sample_config sample_request []))
         \<noteq> array (requestMetricsAttrs (frame_at_dispatch sample_env sample_config sample_request []))
     \<and> 0 < length (store s1)
     \<and> 0 \<noteq> array (responseMetricAttrs (frame_at_dispatch sample_env sample_config sample_request []))
     \<and> backing (store (snd (Middleware sample_env sample_config sample_request []))) 0 =
         backing (store s1) 0
     \<and> elems (store (snd (Middleware sample_env sample_config sample_request [])))
         (requestMetricsAttrs (frame_at_dispatch sample_env sample_config sample_request [])) =
         [KeyValue ''http.method'' (STRING ''GET''), KeyValue ''http.scheme'' (STRING ''http'')]
     \<and> collect gauge_add (trace (snd (Middleware sample_env sample_config sample_request []))) =
         [(1, [WithAttributes [KeyValue ''http.method'' (STRING ''GET'')],
               WithAttributes [KeyValue ''http.scheme'' (STRING ''http'')]]),
          (- 1, [WithAttributes [KeyValue ''http.method'' (STRING ''GET'')],
                 WithAttributes [KeyValue ''http.scheme'' (STRING ''http'')]])]"
proof -
  obtain s1 where d: "downstream sample_env sample_config sample_request [] = Inr s1"
    using sample_downstream by blast
  have rq: "fst (httpServerMetricAttributesFromRequest sample_env (at_entry sample_request)) =
      [KeyValue ''http.method'' (STRING ''GET''), KeyValue ''http.scheme'' (STRING ''http'')]"
    by (simp add: sample_env_def)
  have os: "attributesToMetricOptions
      [KeyValue ''http.method'' (STRING ''GET''), KeyValue ''http.scheme'' (STRING ''http'')] =
      [WithAttributes [KeyValue ''http.method'' (STRING ''GET'')],
       WithAttributes [KeyValue ''http.scheme'' (STRING ''http'')]]"
    by (simp add: attributesToMetricOptions_map)
  have len: "0 < length (store s1)"
    by (simp add: downstream_store[OF d] at_dispatch_facts(6))
  have ne: "0 \<noteq> array (responseMetricAttrs (frame_at_dispatch sample_env sample_config sample_request []))"
    by (simp add: at_dispatch_facts(5))
  show ?thesis
    using d rq os len ne request_attributes_untouched[OF d refl refl]
    by (intro exI[of _ s1]) simp
qed

end
